theory Spec2Isabelle
  imports Complex_Main "HOL-Library.Sublist" "HOL-Library.Multiset"
    "HOL-Library.Product_Lexorder" "HOL-Library.List_Lexorder" "HOL-Library.Char_ord"
    "HOL-Library.Option_ord"
begin

section \<open>Odds and probability arithmetic (research\_engine.py)\<close>

text \<open>
  Python floats are modelled as \<^typ>\<open>real\<close>: the development is about the formulas
  the code computes, not about rounding. The exceptions the code can raise are values
  of the result type: a true division by zero, a negative size passed to
  \<open>itertools.combinations\<close>, a substring test on \<open>None\<close>, a comparison of \<open>None\<close>
  with a string.
\<close>

datatype error = ZeroDivisionError | ValueError | TypeError

text \<open>Sequencing of computations that may raise: the first exception ends the run.\<close>

definition bind_err :: "error + 'a \<Rightarrow> ('a \<Rightarrow> error + 'b) \<Rightarrow> error + 'b" where
  "bind_err m f = (case m of Inl e \<Rightarrow> Inl e | Inr x \<Rightarrow> f x)"

fun map_err :: "('a \<Rightarrow> error + 'b) \<Rightarrow> 'a list \<Rightarrow> error + 'b list" where
  "map_err f [] = Inr []"
| "map_err f (x # xs) =
     bind_err (f x) (\<lambda>y. bind_err (map_err f xs) (\<lambda>ys. Inr (y # ys)))"

definition py_truediv :: "real \<Rightarrow> real \<Rightarrow> error + real" where
  "py_truediv a b = (if b = 0 then Inl ZeroDivisionError else Inr (a / b))"

text \<open>
  \<^verbatim>\<open>
  def american_to_decimal(self, american_odds):
      if american_odds > 0:
          return (american_odds / 100) + 1
      else:
          return (100 / abs(american_odds)) + 1
  \<close>
\<close>

definition american_to_decimal :: "real \<Rightarrow> error + real" where
  "american_to_decimal american_odds =
     (if american_odds > 0 then Inr ((american_odds / 100) + 1)
      else (case py_truediv 100 \<bar>american_odds\<bar> of
              Inl e \<Rightarrow> Inl e
            | Inr q \<Rightarrow> Inr (q + 1)))"

text \<open>
  \<^verbatim>\<open>
  def american_to_implied_prob(self, american_odds):
      if american_odds > 0:
          return 100 / (american_odds + 100)
      else:
          return abs(american_odds) / (abs(american_odds) + 100)
  \<close>
  Neither divisor can be zero: the first exceeds 100, the second is at least 100.
\<close>

definition american_to_implied_prob :: "real \<Rightarrow> real" where
  "american_to_implied_prob american_odds =
     (if american_odds > 0 then 100 / (american_odds + 100)
      else \<bar>american_odds\<bar> / (\<bar>american_odds\<bar> + 100))"

text \<open>
  \<^verbatim>\<open>
  def calculate_expected_value(self, implied_prob, true_prob, odds):
      decimal_odds = self.american_to_decimal(odds)
      ev = (true_prob * (decimal_odds - 1)) - (1 - true_prob)
      return ev
  \<close>
\<close>

definition calculate_expected_value :: "real \<Rightarrow> real \<Rightarrow> real \<Rightarrow> error + real" where
  "calculate_expected_value implied_prob true_prob american_odds =
     (case american_to_decimal american_odds of
        Inl e \<Rightarrow> Inl e
      | Inr decimal_odds \<Rightarrow> Inr ((true_prob * (decimal_odds - 1)) - (1 - true_prob)))"

section \<open>Data model\<close>

text \<open>
  A game is a row of the table \<open>games\<close>, an ORM object of which the code modelled
  here reads the integer primary key \<open>Game.id\<close>, the sport, the names of the teams
  and fighters and the main lines. Every column but the id and the sport is nullable.
  Within one session there is one object for each row, so two legs have the same game
  object exactly when they have equal games here.
\<close>

record game =
  game_id :: int
  game_sport :: string
  home_team :: "string option"
  away_team :: "string option"
  fighter1 :: "string option"
  fighter2 :: "string option"
  home_moneyline :: "real option"
  away_moneyline :: "real option"
  spread :: "real option"
  spread_home_odds :: "real option"
  game_total :: "real option"
  game_over_odds :: "real option"

text \<open>
  A leg is a Python dict built by \<open>analyze_game\<close>, with every key it can hold, so
  that the equality of legs is the equality of the dicts. The selection of a moneyline
  leg is \<open>game.home_team\<close> or \<open>game.away_team\<close>, which is \<open>None\<close> for a fight; spread
  and total legs carry no \<open>"true_probability"\<close> key; the bet type of a team market is
  \<open>market.prop_type or market.market_key\<close>, which is \<open>None\<close> when there is neither.
  The keys that only the legs of props and team markets carry are one field:
  \<^item> \<open>PlayerKeys\<close>: \<open>"prop_type"\<close>, \<open>"prop_value"\<close> (\<open>None\<close> in a yes/no prop),
    \<open>"player_name"\<close>, \<open>"market_key"\<close>;
  \<^item> \<open>TeamKeys\<close>: \<open>"prop_type"\<close>, \<open>"prop_value"\<close> (a key the yes/no market does not
    have: \<open>None\<close> here stands for its absence, the value of an over/under market being
    never \<open>None\<close>), \<open>"market_key"\<close>, \<open>"description"\<close>.
\<close>

datatype market_keys =
    MainKeys
  | PlayerKeys string "real option" string "string option"
  | TeamKeys "string option" "real option" "string option" string

record leg =
  game :: game
  bet_type :: "string option"
  selection :: "string option"
  odds :: real
  implied_probability :: real
  true_probability :: "real option"
  expected_value :: real
  confidence_score :: real
  reasoning :: string
  market_keys :: market_keys

text \<open>
  The configuration constants of config.py, read from the environment
  (defaults \<open>MIN_CONFIDENCE = 0.6\<close>, \<open>MAX_PARLAY_LEGS = 15\<close>, \<open>MIN_PARLAY_LEGS = 2\<close>),
  and the weights set in \<open>ResearchEngine.__init__\<close>.
\<close>

record config =
  MIN_CONFIDENCE :: real
  MAX_PARLAY_LEGS :: int
  MIN_PARLAY_LEGS :: int

definition default_config :: config where
  "default_config = \<lparr>MIN_CONFIDENCE = 6 / 10, MAX_PARLAY_LEGS = 15, MIN_PARLAY_LEGS = 2\<rparr>"

record weights =
  w_value :: real
  w_confidence :: real
  w_correlation :: real
  w_diversification :: real

definition default_weights :: weights where
  "default_weights =
     \<lparr>w_value = 4 / 10, w_confidence = 3 / 10, w_correlation = 2 / 10,
      w_diversification = 1 / 10\<rparr>"

section \<open>Composite scoring (research\_engine.py)\<close>

text \<open>
  \<^verbatim>\<open>
  def calculate_correlation_penalty(self, leg1, leg2):
      if leg1["game"].id == leg2["game"].id:
          return 0.5
      if leg1.get("selection") == leg2.get("selection"):
          return 0.3
      return 0.1
  \<close>
\<close>

definition calculate_correlation_penalty :: "leg \<Rightarrow> leg \<Rightarrow> real" where
  "calculate_correlation_penalty leg1 leg2 =
     (if game_id (game leg1) = game_id (game leg2) then 5 / 10
      else if selection leg1 = selection leg2 then 3 / 10
      else 1 / 10)"

text \<open>
  The pairs \<open>(legs[i], legs[j])\<close> with \<open>i < j\<close>, in the order in which the nested loops
  \<^verbatim>\<open>for i in range(len(legs)): for j in range(i + 1, len(legs))\<close> visit them.
\<close>

fun leg_pairs :: "'a list \<Rightarrow> ('a \<times> 'a) list" where
  "leg_pairs [] = []"
| "leg_pairs (x # xs) = map (Pair x) xs @ leg_pairs xs"

text \<open>
  Lines 521 to 526 of \<open>build_parlay_score\<close>:
  \<^verbatim>\<open>
  for i in range(len(legs)):
      for j in range(i + 1, len(legs)):
          correlation_penalty += self.calculate_correlation_penalty(legs[i], legs[j])
  correlation_penalty = min(correlation_penalty / (len(legs) * (len(legs) - 1) / 2), 1.0)
  \<close>
\<close>

definition parlay_correlation_penalty :: "leg list \<Rightarrow> error + real" where
  "parlay_correlation_penalty legs =
     (let n = int (length legs);
          total = (\<Sum>(a, b) \<leftarrow> leg_pairs legs. calculate_correlation_penalty a b)
      in case py_truediv total (real_of_int (n * (n - 1)) / 2) of
           Inl e \<Rightarrow> Inl e
         | Inr q \<Rightarrow> Inr (min q 1))"

text \<open>The sum the two loops accumulate, before the division.\<close>

definition pair_total :: "leg list \<Rightarrow> real" where
  "pair_total legs = (\<Sum>(a, b) \<leftarrow> leg_pairs legs. calculate_correlation_penalty a b)"

text \<open>
  Line 529: \<^verbatim>\<open>diversification = min(len(legs) / MAX_PARLAY_LEGS, 1.0)\<close>.
\<close>

definition diversification :: "config \<Rightarrow> leg list \<Rightarrow> error + real" where
  "diversification cfg legs =
     (case py_truediv (real (length legs)) (real_of_int (MAX_PARLAY_LEGS cfg)) of
        Inl e \<Rightarrow> Inl e
      | Inr q \<Rightarrow> Inr (min q 1))"

text \<open>
  \<^verbatim>\<open>
  def build_parlay_score(self, legs):
      if len(legs) < MIN_PARLAY_LEGS:
          return 0.0
      ...
      for leg in legs:
          combined_implied_prob *= leg["implied_probability"]
          combined_ev += leg["expected_value"]
          avg_confidence += leg["confidence_score"]
      avg_confidence /= len(legs)
      ... (correlation penalty, diversification) ...
      score = (self.weights["value"] * (combined_ev / len(legs)) +
               self.weights["confidence"] * avg_confidence -
               self.weights["correlation"] * correlation_penalty +
               self.weights["diversification"] * diversification)
      return score
  \<close>
\<close>

definition build_parlay_score :: "config \<Rightarrow> weights \<Rightarrow> leg list \<Rightarrow> error + real" where
  "build_parlay_score cfg w legs =
     (if int (length legs) < MIN_PARLAY_LEGS cfg then Inr 0
      else
        let combined_ev = (\<Sum>l \<leftarrow> legs. expected_value l);
            conf_sum = (\<Sum>l \<leftarrow> legs. confidence_score l)
        in case py_truediv conf_sum (real (length legs)) of
             Inl e \<Rightarrow> Inl e
           | Inr avg_confidence \<Rightarrow>
        (case parlay_correlation_penalty legs of
             Inl e \<Rightarrow> Inl e
           | Inr correlation_penalty \<Rightarrow>
        (case diversification cfg legs of
             Inl e \<Rightarrow> Inl e
           | Inr dv \<Rightarrow>
        (case py_truediv combined_ev (real (length legs)) of
             Inl e \<Rightarrow> Inl e
           | Inr avg_ev \<Rightarrow>
               Inr (w_value w * avg_ev + w_confidence w * avg_confidence
                    - w_correlation w * correlation_penalty
                    + w_diversification w * dv)))))"

section \<open>Enumeration of candidates\<close>

text \<open>
  \<open>itertools.combinations(pool, r)\<close>: the \<open>r\<close>-element subsequences of the pool, in
  lexicographic order of their positions; a negative \<open>r\<close> raises \<open>ValueError\<close>.
  \<open>range(a, b)\<close> and the slice \<open>xs[:n]\<close> (which, for a negative \<open>n\<close>, drops the last
  \<open>-n\<close> elements) are written out as well.
\<close>

fun combinations :: "'a list \<Rightarrow> nat \<Rightarrow> 'a list list" where
  "combinations xs 0 = [[]]"
| "combinations [] (Suc k) = []"
| "combinations (x # xs) (Suc k) =
     map ((#) x) (combinations xs k) @ combinations xs (Suc k)"

definition py_combinations :: "'a list \<Rightarrow> int \<Rightarrow> error + 'a list list" where
  "py_combinations xs r = (if r < 0 then Inl ValueError else Inr (combinations xs (nat r)))"

definition py_range :: "int \<Rightarrow> int \<Rightarrow> int list" where
  "py_range a b = [a..b - 1]"

definition py_take :: "int \<Rightarrow> 'a list \<Rightarrow> 'a list" where
  "py_take n xs = (if 0 \<le> n then take (nat n) xs else take (length xs - nat (- n)) xs)"

text \<open>
  The loop shared by every enumerator:
  \<^verbatim>\<open>
  for leg in combo:
      combined_odds *= self.american_to_decimal(leg["odds"])
  \<close>
  and the conversion that follows it:
  \<^verbatim>\<open>
  combined_odds -= 1
  combined_american = (combined_odds * 100) if combined_odds >= 1 else (-100 / combined_odds)
  \<close>
\<close>

fun combine_odds :: "real \<Rightarrow> leg list \<Rightarrow> error + real" where
  "combine_odds acc [] = Inr acc"
| "combine_odds acc (l # ls) =
     bind_err (american_to_decimal (odds l)) (\<lambda>d. combine_odds (acc * d) ls)"

definition combined_american_of :: "real \<Rightarrow> error + real" where
  "combined_american_of combined_odds =
     (if combined_odds \<ge> 1 then Inr (combined_odds * 100)
      else py_truediv (- 100) combined_odds)"

definition rating :: "real \<Rightarrow> string" where
  "rating avg_confidence =
     (if avg_confidence \<ge> 75 / 100 then ''High''
      else if avg_confidence \<ge> 65 / 100 then ''Moderate''
      else ''Low'')"

section \<open>Candidates of the research engine\<close>

text \<open>
  The candidate dict of \<open>generate_parlays\<close> and \<open>generate_same_game_parlays\<close>. Keys
  that only some dicts carry are options; \<open>is_sgp\<close> and \<open>has_props\<close> are only read
  with \<open>.get(key, False)\<close>, so an absent key is \<open>False\<close>. The fields
  \<open>combined_implied_prob\<close>, \<open>parlay_ev\<close> and \<open>avg_confidence\<close> are the keys
  \<open>"implied_probability"\<close> (\<open>"combined_implied_prob"\<close> in a same-game parlay),
  \<open>"expected_value"\<close> and \<open>"confidence_score"\<close>, renamed apart from the leg's.
\<close>

record parlay =
  legs :: "leg list"
  num_legs :: nat
  combined_odds :: real
  combined_implied_prob :: real
  parlay_ev :: real
  confidence_rating :: string
  avg_confidence :: real
  score :: real
  has_props :: bool
  prop_count :: "nat option"
  is_sgp :: bool
  sgp_game :: "game option"
  avg_correlation :: "real option"
  adjusted_score :: "real option"
  recommended_stake_pct :: "real option"

text \<open>
  The body of the inner loop of \<open>generate_parlays\<close> (lines 648 to 690) and of
  \<open>generate_same_game_parlays\<close> (lines 558 to 601), up to the score: the metrics of
  one combination.
\<close>

definition candidate_metrics ::
  "config \<Rightarrow> weights \<Rightarrow> leg list \<Rightarrow> error + (real \<times> real \<times> real \<times> real \<times> real)" where
  "candidate_metrics cfg w combo =
     (let combined_implied = prod_list (map implied_probability combo) in
      bind_err (combine_odds 1 combo) (\<lambda>product.
      bind_err (py_truediv (\<Sum>l \<leftarrow> combo. confidence_score l) (real (length combo)))
        (\<lambda>avg_conf.
      let profit = product - 1 in
      bind_err (combined_american_of profit) (\<lambda>american.
      let combined_ev = (combined_implied * profit) - (1 - combined_implied) in
      bind_err (build_parlay_score cfg w combo) (\<lambda>sc.
      Inr (american, combined_implied, combined_ev, avg_conf, sc))))))"

definition sgp_candidate :: "config \<Rightarrow> weights \<Rightarrow> game \<Rightarrow> leg list \<Rightarrow> error + parlay" where
  "sgp_candidate cfg w g combo =
     bind_err (candidate_metrics cfg w combo)
       (\<lambda>(american, combined_implied, combined_ev, avg_conf, sc).
          let n = length (filter (\<lambda>l. bet_type l = Some ''prop'') combo) in
          Inr \<lparr>legs = combo, num_legs = length combo, combined_odds = american,
               combined_implied_prob = combined_implied, parlay_ev = combined_ev,
               confidence_rating = rating avg_conf, avg_confidence = avg_conf,
               score = sc * (12 / 10), has_props = (n > 0), prop_count = Some n,
               is_sgp = True, sgp_game = Some g, avg_correlation = None,
               adjusted_score = None, recommended_stake_pct = None\<rparr>)"

definition cross_candidate :: "config \<Rightarrow> weights \<Rightarrow> leg list \<Rightarrow> error + parlay" where
  "cross_candidate cfg w combo =
     bind_err (candidate_metrics cfg w combo)
       (\<lambda>(american, combined_implied, combined_ev, avg_conf, sc).
          let hp = (\<exists>l \<in> set combo. bet_type l = Some ''prop'') in
          Inr \<lparr>legs = combo, num_legs = length combo, combined_odds = american,
               combined_implied_prob = combined_implied, parlay_ev = combined_ev,
               confidence_rating = rating avg_conf, avg_confidence = avg_conf,
               score = (if hp then sc * (115 / 100) else sc), has_props = hp,
               prop_count = None, is_sgp = False, sgp_game = None,
               avg_correlation = None, adjusted_score = None,
               recommended_stake_pct = None\<rparr>)"

text \<open>
  The two nested loops \<^verbatim>\<open>for num_legs in range(lo, hi): for combo in combinations(pool, num_legs)\<close>
  applied to a loop body.
\<close>

definition enumerate_candidates ::
  "(leg list \<Rightarrow> error + 'p) \<Rightarrow> leg list \<Rightarrow> int \<Rightarrow> int \<Rightarrow> error + 'p list" where
  "enumerate_candidates body pool lo hi =
     bind_err (map_err (\<lambda>k. bind_err (py_combinations pool k) (map_err body))
                 (py_range lo hi))
       (\<lambda>groups. Inr (concat groups))"

text \<open>
  \<^verbatim>\<open>
  def generate_same_game_parlays(self, game, max_parlays=10):
      legs = self.analyze_game(game)
      sgp_legs = [leg for leg in legs
                  if leg.get("bet_type") in ["prop", "moneyline", "spread", "total"]]
      if len(sgp_legs) < MIN_PARLAY_LEGS:
          return []
      parlay_candidates = []
      for num_legs in range(max(MIN_PARLAY_LEGS, 4), min(9, len(sgp_legs) + 1)):
          for combo in combinations(sgp_legs, num_legs):
              ...
      parlay_candidates.sort(key=lambda x: x["score"], reverse=True)
      return parlay_candidates[:max_parlays]
  \<close>
  \<open>analyze_game\<close> reads the database and the predictors; here it is a parameter, a
  function from the game to its legs. Python's sort is stable, also with
  \<open>reverse=True\<close>, which \<open>sort_key\<close> on the negated key is.
\<close>

definition generate_same_game_parlays ::
  "config \<Rightarrow> weights \<Rightarrow> (game \<Rightarrow> leg list) \<Rightarrow> game \<Rightarrow> int \<Rightarrow> error + parlay list" where
  "generate_same_game_parlays cfg w analyze_game g max_parlays =
     (let sgp_legs = filter (\<lambda>l. bet_type l \<in> {Some ''prop'', Some ''moneyline'', Some ''spread'', Some ''total''})
                       (analyze_game g)
      in if int (length sgp_legs) < MIN_PARLAY_LEGS cfg then Inr []
         else bind_err
                (enumerate_candidates (sgp_candidate cfg w g) sgp_legs
                   (max (MIN_PARLAY_LEGS cfg) 4) (min 9 (int (length sgp_legs) + 1)))
                (\<lambda>parlay_candidates.
                   Inr (py_take max_parlays
                          (sort_key (\<lambda>x. - score x) parlay_candidates))))"


section \<open>Correlation matrix (advanced\_analytics.py)\<close>

text \<open>
  \<^verbatim>\<open>
  def _calculate_dict_correlation(self, leg1, leg2):
      game1 = leg1.get('game'); game2 = leg2.get('game')
      same_game = False
      if game1 and game2:
          if hasattr(game1, 'id') and hasattr(game2, 'id') and game1.id == game2.id:
              same_game = True
          elif (... home_team and away_team attributes ...):
              if (game1.home_team == game2.home_team and
                  game1.away_team == game2.away_team):
                  same_game = True
      if same_game:
          bet_type1 = leg1.get('bet_type', ''); bet_type2 = leg2.get('bet_type', '')
          if bet_type1 == bet_type2:
              return 0.9
          elif bet_type1 == "moneyline" and bet_type2 == "spread":
              return 0.7
          else:
              return 0.5
      return 0.1
  \<close>
\<close>

definition same_game :: "leg \<Rightarrow> leg \<Rightarrow> bool" where
  "same_game leg1 leg2 =
     (if game_id (game leg1) = game_id (game leg2) then True
      else home_team (game leg1) = home_team (game leg2) \<and>
           away_team (game leg1) = away_team (game leg2))"

definition calculate_dict_correlation :: "leg \<Rightarrow> leg \<Rightarrow> real" where
  "calculate_dict_correlation leg1 leg2 =
     (if same_game leg1 leg2 then
        (if bet_type leg1 = bet_type leg2 then 9 / 10
         else if bet_type leg1 = Some ''moneyline'' \<and> bet_type leg2 = Some ''spread'' then 7 / 10
         else 5 / 10)
      else 1 / 10)"

text \<open>
  \<^verbatim>\<open>
  def optimize_parlay_selection(self, parlay_candidates, max_parlays=5):
      if not parlay_candidates:
          return []
      scored_parlays = []
      for parlay in parlay_candidates:
          legs = parlay['legs']
          corr_matrix = self.build_correlation_matrix(legs)
          avg_corr = np.mean(corr_matrix[np.triu_indices_from(corr_matrix, k=1)])
          diversification_bonus = (1 - avg_corr) * 0.2
          adjusted_score = parlay['score'] + diversification_bonus
          scored_parlays.append({**parlay, 'avg_correlation': avg_corr,
                                 'adjusted_score': adjusted_score})
      scored_parlays.sort(key=lambda x: x['adjusted_score'], reverse=True)
      selected = []
      used_games = set()
      for parlay in scored_parlays:
          parlay_games = {l['game'].id for l in parlay['legs']}
          overlap = len(parlay_games & used_games)
          if overlap < len(parlay_games) * 0.5 or len(selected) < max_parlays:
              selected.append(parlay)
              used_games.update(parlay_games)
              if len(selected) >= max_parlays:
                  break
      return selected
  \<close>
  The entries above the diagonal of the matrix are the correlations of the pairs
  \<open>i < j\<close>. For a candidate of fewer than two legs numpy's mean of no entries is
  \<open>nan\<close>, which a real number cannot represent: statements about the order of the
  scored candidates are for candidates of at least two legs.
\<close>

definition avg_corr :: "leg list \<Rightarrow> real" where
  "avg_corr ls =
     (\<Sum>(a, b) \<leftarrow> leg_pairs ls. calculate_dict_correlation a b)
       / real (length (leg_pairs ls))"

definition score_parlay :: "parlay \<Rightarrow> real \<times> parlay" where
  "score_parlay p =
     (let c = avg_corr (legs p);
          diversification_bonus = (1 - c) * (2 / 10);
          adjusted = score p + diversification_bonus
      in (adjusted, p\<lparr>avg_correlation := Some c, adjusted_score := Some adjusted\<rparr>))"

definition parlay_games :: "parlay \<Rightarrow> int set" where
  "parlay_games p = set (map (\<lambda>l. game_id (game l)) (legs p))"

fun select_diverse :: "int \<Rightarrow> parlay list \<Rightarrow> int set \<Rightarrow> parlay list \<Rightarrow> parlay list" where
  "select_diverse max_parlays selected used_games [] = selected"
| "select_diverse max_parlays selected used_games (p # rest) =
     (let overlap = card (parlay_games p \<inter> used_games) in
      if real overlap < real (card (parlay_games p)) * (5 / 10)
         \<or> int (length selected) < max_parlays
      then
        (let selected' = selected @ [p];
             used_games' = used_games \<union> parlay_games p
         in if int (length selected') \<ge> max_parlays then selected'
            else select_diverse max_parlays selected' used_games' rest)
      else select_diverse max_parlays selected used_games rest)"

definition sorted_by_adjusted :: "parlay list \<Rightarrow> parlay list" where
  "sorted_by_adjusted parlay_candidates =
     map snd (sort_key (\<lambda>x. - fst x) (map score_parlay parlay_candidates))"

definition optimize_parlay_selection :: "parlay list \<Rightarrow> int \<Rightarrow> parlay list" where
  "optimize_parlay_selection parlay_candidates max_parlays =
     (if parlay_candidates = [] then []
      else select_diverse max_parlays [] {} (sorted_by_adjusted parlay_candidates))"

section \<open>Kelly stake (advanced\_analytics.py)\<close>

text \<open>
  \<^verbatim>\<open>
  def calculate_kelly_fraction(win_prob, odds, bankroll=1000.0):
      if win_prob <= 0 or win_prob >= 1:
          return 0.0
      if odds < 0:
          decimal_odds = (100 / abs(odds)) + 1
      elif odds > 0:
          decimal_odds = (odds / 100) + 1
      else:
          return 0.0
      b = decimal_odds - 1
      q = 1 - win_prob
      kelly_fraction = (b * win_prob - q) / b
      fractional_kelly = kelly_fraction * 0.25
      return max(0.0, min(fractional_kelly, 0.05))

  def calculate_parlay_kelly(parlay, leg_probs, bankroll=1000.0):
      combined_prob = np.prod(leg_probs)
      if parlay.combined_odds < 0:
          decimal_odds = (100 / abs(parlay.combined_odds)) + 1
      else:
          decimal_odds = (parlay.combined_odds / 100) + 1
      return KellyCriterion.calculate_kelly_fraction(combined_prob, decimal_odds, bankroll)
  \<close>
\<close>

definition kelly_of_decimal :: "real \<Rightarrow> real \<Rightarrow> error + real" where
  "kelly_of_decimal win_prob decimal_odds =
     (let b = decimal_odds - 1;
          q = 1 - win_prob
      in bind_err (py_truediv (b * win_prob - q) b) (\<lambda>kelly_fraction.
           let fractional_kelly = kelly_fraction * (25 / 100)
           in Inr (max 0 (min fractional_kelly (5 / 100)))))"

definition calculate_kelly_fraction :: "real \<Rightarrow> real \<Rightarrow> error + real" where
  "calculate_kelly_fraction win_prob x =
     (if win_prob \<le> 0 \<or> win_prob \<ge> 1 then Inr 0
      else if x < 0 then kelly_of_decimal win_prob ((100 / \<bar>x\<bar>) + 1)
      else if x > 0 then kelly_of_decimal win_prob ((x / 100) + 1)
      else Inr 0)"

definition calculate_parlay_kelly :: "real \<Rightarrow> real list \<Rightarrow> error + real" where
  "calculate_parlay_kelly american leg_probs =
     (let combined_prob = prod_list leg_probs;
          decimal_odds = (if american < 0 then (100 / \<bar>american\<bar>) + 1
                          else (american / 100) + 1)
      in calculate_kelly_fraction combined_prob decimal_odds)"

definition add_kelly :: "parlay \<Rightarrow> error + parlay" where
  "add_kelly p =
     (let leg_probs = map (\<lambda>l. case true_probability l of
                                  Some t \<Rightarrow> t | None \<Rightarrow> implied_probability l) (legs p)
      in bind_err (calculate_parlay_kelly (combined_odds p) leg_probs) (\<lambda>kelly_fraction.
           Inr (p\<lparr>recommended_stake_pct := Some (kelly_fraction * 100)\<rparr>)))"

section \<open>Parlay generation (research\_engine.py)\<close>

text \<open>
  \<^verbatim>\<open>
  def generate_parlays(self, games, max_parlays=10, include_sgp=True):
      all_parlays = []
      if include_sgp:
          for game in games:
              sgp_parlays = self.generate_same_game_parlays(game, max_parlays=5)
              all_parlays.extend(sgp_parlays)
      all_legs = []
      for game in games:
          legs = self.analyze_game(game)
          all_legs.extend(legs)
          ...
      if len(all_legs) < MIN_PARLAY_LEGS:
          return all_parlays[:max_parlays] if all_parlays else []
      parlay_candidates = []
      for num_legs in range(MIN_PARLAY_LEGS, min(MAX_PARLAY_LEGS + 1, len(all_legs) + 1)):
          for combo in combinations(all_legs, num_legs):
              ...
      parlay_candidates.sort(key=lambda x: (x.get("has_props", False), x["score"]),
                             reverse=True)
      optimized = self.correlation_matrix.optimize_parlay_selection(
          parlay_candidates, max_parlays)
      for parlay in optimized:
          ... parlay['recommended_stake_pct'] = kelly_fraction * 100
      all_parlays.extend(optimized if optimized else parlay_candidates[:max_parlays])
      all_parlays.sort(key=lambda x: (x.get("is_sgp", False), x.get("has_props", False),
                                      x["score"]), reverse=True)
      return all_parlays[:max_parlays]
  \<close>
  A descending stable sort on a tuple key is an ascending stable sort on the tuple of
  the negated components (\<open>False < True\<close> on the Booleans, lexicographic on tuples).
\<close>

definition generate_parlays ::
  "config \<Rightarrow> weights \<Rightarrow> (game \<Rightarrow> leg list) \<Rightarrow> game list \<Rightarrow> int \<Rightarrow> bool
     \<Rightarrow> error + parlay list" where
  "generate_parlays cfg w analyze_game games max_parlays include_sgp =
     bind_err
       (if include_sgp
        then bind_err (map_err (\<lambda>g. generate_same_game_parlays cfg w analyze_game g 5) games)
               (\<lambda>groups. Inr (concat groups))
        else Inr [])
       (\<lambda>all_parlays.
     let all_legs = concat (map analyze_game games) in
     if int (length all_legs) < MIN_PARLAY_LEGS cfg
     then Inr (if all_parlays \<noteq> [] then py_take max_parlays all_parlays else [])
     else
       bind_err
         (enumerate_candidates (cross_candidate cfg w) all_legs
            (MIN_PARLAY_LEGS cfg)
            (min (MAX_PARLAY_LEGS cfg + 1) (int (length all_legs) + 1)))
         (\<lambda>candidates.
       let parlay_candidates = sort_key (\<lambda>x. (\<not> has_props x, - score x)) candidates;
           selected = optimize_parlay_selection parlay_candidates max_parlays
       in bind_err (map_err add_kelly selected) (\<lambda>optimized.
            let all_parlays' =
                  all_parlays @ (if optimized \<noteq> [] then optimized
                                 else py_take max_parlays parlay_candidates)
            in Inr (py_take max_parlays
                      (sort_key (\<lambda>x. (\<not> is_sgp x, \<not> has_props x, - score x))
                         all_parlays')))))"


section \<open>Parlay optimizer (parlay\_optimizer.py)\<close>

text \<open>
  \<^verbatim>\<open>
  def round_robin_generator(self, legs, group_size=3):
      if len(legs) < group_size:
          return []
      round_robins = []
      for combo in combinations(legs, group_size):
          combined_implied = 1.0
          combined_odds = 1.0
          for leg in combo:
              combined_implied *= leg["implied_probability"]
              combined_odds *= self.research_engine.american_to_decimal(leg["odds"])
          combined_odds -= 1
          combined_american = (combined_odds * 100) if combined_odds >= 1 \
                              else (-100 / combined_odds)
          round_robins.append({"legs": combo, "num_legs": group_size,
                               "combined_odds": combined_american,
                               "implied_probability": combined_implied})
      return round_robins
  \<close>
\<close>

record round_robin =
  rr_legs :: "leg list"
  rr_num_legs :: int
  rr_combined_odds :: real
  rr_implied_probability :: real

definition round_robin_of :: "int \<Rightarrow> leg list \<Rightarrow> error + round_robin" where
  "round_robin_of group_size combo =
     (let combined_implied = prod_list (map implied_probability combo) in
      bind_err (combine_odds 1 combo) (\<lambda>product.
      bind_err (combined_american_of (product - 1)) (\<lambda>american.
      Inr \<lparr>rr_legs = combo, rr_num_legs = group_size, rr_combined_odds = american,
           rr_implied_probability = combined_implied\<rparr>)))"

definition round_robin_generator :: "leg list \<Rightarrow> int \<Rightarrow> error + round_robin list" where
  "round_robin_generator pool group_size =
     (if int (length pool) < group_size then Inr []
      else bind_err (py_combinations pool group_size) (map_err (round_robin_of group_size)))"

text \<open>
  \<^verbatim>\<open>
  def optimize_for_target_odds(self, games, target_odds, tolerance=0.1,
                               min_legs=2, max_legs=8):
      all_legs = []
      for game in games:
          legs = self.research_engine.analyze_game(game)
          all_legs.extend(legs)
      if len(all_legs) < min_legs:
          return []
      candidates = []
      for num_legs in range(min_legs, min(max_legs + 1, len(all_legs) + 1)):
          for combo in combinations(all_legs, num_legs):
              ... (products and sums over the legs) ...
              combined_odds -= 1
              combined_american = ...
              diff = abs(combined_american - target_odds) / target_odds
              if diff <= tolerance:
                  candidates.append({"legs": combo, "num_legs": num_legs,
                      "combined_odds": combined_american,
                      "implied_probability": combined_implied,
                      "expected_value": total_ev / num_legs,
                      "confidence_score": total_confidence / num_legs,
                      "target_diff": diff,
                      "score": (1 - diff) * (total_ev / num_legs)
                               * (total_confidence / num_legs)})
      candidates.sort(key=lambda x: x["score"], reverse=True)
      return candidates[:10]
  \<close>
\<close>

record target_parlay =
  t_legs :: "leg list"
  t_num_legs :: int
  t_combined_odds :: real
  t_implied_probability :: real
  t_expected_value :: real
  t_confidence_score :: real
  target_diff :: real
  t_score :: real

definition target_candidate ::
  "real \<Rightarrow> real \<Rightarrow> int \<Rightarrow> leg list \<Rightarrow> error + target_parlay option" where
  "target_candidate target_odds tolerance k combo =
     (let combined_implied = prod_list (map implied_probability combo);
          total_ev = (\<Sum>l \<leftarrow> combo. expected_value l);
          total_confidence = (\<Sum>l \<leftarrow> combo. confidence_score l)
      in
      bind_err (combine_odds 1 combo) (\<lambda>product.
      bind_err (combined_american_of (product - 1)) (\<lambda>american.
      bind_err (py_truediv \<bar>american - target_odds\<bar> target_odds) (\<lambda>diff.
      if diff \<le> tolerance then
        bind_err (py_truediv total_ev (real_of_int k)) (\<lambda>ev.
        bind_err (py_truediv total_confidence (real_of_int k)) (\<lambda>conf.
        Inr (Some \<lparr>t_legs = combo, t_num_legs = k, t_combined_odds = american,
                   t_implied_probability = combined_implied, t_expected_value = ev,
                   t_confidence_score = conf, target_diff = diff,
                   t_score = (1 - diff) * ev * conf\<rparr>)))
      else Inr None))))"

definition optimize_for_target_odds ::
  "(game \<Rightarrow> leg list) \<Rightarrow> game list \<Rightarrow> real \<Rightarrow> real \<Rightarrow> int \<Rightarrow> int
     \<Rightarrow> error + target_parlay list" where
  "optimize_for_target_odds analyze_game games target_odds tolerance min_legs max_legs =
     (let all_legs = concat (map analyze_game games) in
      if int (length all_legs) < min_legs then Inr []
      else
        bind_err
          (map_err (\<lambda>k. bind_err (py_combinations all_legs k)
                            (map_err (target_candidate target_odds tolerance k)))
             (py_range min_legs (min (max_legs + 1) (int (length all_legs) + 1))))
          (\<lambda>groups.
             let candidates = concat (map (\<lambda>c. case c of None \<Rightarrow> [] | Some x \<Rightarrow> [x])
                                        (concat groups))
             in Inr (py_take 10 (sort_key (\<lambda>x. - t_score x) candidates))))"

section \<open>Diverse parlays (diverse\_parlay\_generator.py)\<close>

text \<open>
  \<^verbatim>\<open>
  def _calculate_parlay_metrics(self, legs, sport):
      if len(legs) < 2:
          return None
      game_ids = set(leg["game"].id for leg in legs)
      if len(game_ids) < max(2, len(legs) * 0.5):
          return None
      combined_odds = 1.0; combined_confidence = 1.0; total_ev = 0.0
      bet_types_included = set()
      for leg in legs:
          odds = leg.get("odds", 0)
          if odds == 0:
              return None
          decimal_odds = self.research_engine.american_to_decimal(odds)
          combined_odds *= decimal_odds
          combined_confidence *= leg.get("confidence_score", 0.5)
          total_ev += leg.get("expected_value", 0)
          bet_types_included.add(leg.get("bet_type", "unknown"))
      combined_odds -= 1
      combined_american = (combined_odds * 100) if combined_odds >= 1 \
                          else (-100 / combined_odds)
      decimal_odds = combined_odds + 1
      potential_payouts = {...}
      variety_bonus = 1.0 + (len(bet_types_included) - 1) * 0.1
      diversification_bonus = 1.0 + (len(game_ids) / len(legs)) * 0.1
      avg_ev = total_ev / len(legs)
      quality_score = (combined_confidence * 100 * variety_bonus
                       * diversification_bonus * (1 + avg_ev * 10))
      return {"picks": legs, "num_legs": len(legs), "sport": sport, ...}
  \<close>
  The result dict holds the legs under both \<open>"picks"\<close> and \<open>"legs"\<close>; the set of bet
  types is kept as a set, the order of \<open>list(set)\<close> being unspecified.
\<close>

record diverse_parlay =
  picks :: "leg list"
  d_num_legs :: nat
  sport :: string
  d_combined_odds :: real
  decimal_odds :: real
  combined_confidence :: real
  potential_payouts :: "real \<times> real \<times> real \<times> real"
  bet_types :: "string option set"
  num_games :: nat
  avg_expected_value :: real
  quality_score :: real

fun metrics_loop ::
  "real \<times> real \<times> real \<times> string option set \<Rightarrow> leg list
     \<Rightarrow> error + (real \<times> real \<times> real \<times> string option set) option" where
  "metrics_loop acc [] = Inr (Some acc)"
| "metrics_loop (co, cc, ev, bts) (l # rest) =
     (if odds l = 0 then Inr None
      else bind_err (american_to_decimal (odds l)) (\<lambda>d.
             metrics_loop (co * d, cc * confidence_score l, ev + expected_value l,
                           insert (bet_type l) bts) rest))"

definition calculate_parlay_metrics :: "leg list \<Rightarrow> string \<Rightarrow> error + diverse_parlay option" where
  "calculate_parlay_metrics ls sp =
     (if length ls < 2 then Inr None
      else
        let game_ids = set (map (\<lambda>l. game_id (game l)) ls) in
        if real (card game_ids) < max 2 (real (length ls) * (5 / 10)) then Inr None
        else
          bind_err (metrics_loop (1, 1, 0, {}) ls) (\<lambda>r.
            case r of
              None \<Rightarrow> Inr None
            | Some (product, conf, total_ev, bet_types_included) \<Rightarrow>
                let profit = product - 1 in
                bind_err (combined_american_of profit) (\<lambda>american.
                let dec = profit + 1;
                    variety_bonus = 1 + (real (card bet_types_included) - 1) * (1 / 10);
                    diversification_bonus =
                      1 + (real (card game_ids) / real (length ls)) * (1 / 10);
                    avg_ev = total_ev / real (length ls)
                in Inr (Some \<lparr>picks = ls, d_num_legs = length ls, sport = sp,
                     d_combined_odds = american, decimal_odds = dec,
                     combined_confidence = conf,
                     potential_payouts = (10 * dec, 25 * dec, 50 * dec, 100 * dec),
                     bet_types = bet_types_included, num_games = card game_ids,
                     avg_expected_value = avg_ev,
                     quality_score = conf * 100 * variety_bonus * diversification_bonus
                                     * (1 + avg_ev * 10)\<rparr>))))"

text \<open>
  \<^verbatim>\<open>
  def _deduplicate_parlays(self, parlays):
      unique = []
      seen_signatures = set()
      for parlay in parlays:
          picks = parlay.get("picks", parlay.get("legs", []))
          signature = tuple(
              sorted((pick["game"].id, pick.get("selection", "")) for pick in picks))
          if signature not in seen_signatures:
              seen_signatures.add(signature)
              unique.append(parlay)
      return unique
  \<close>
  Python orders the pairs lexicographically, the strings by code point, as the
  orders on products, lists and options imported here do. Two tuples are compared on
  the first component in which they differ: two pairs of one game with different
  selections are compared on their selections, and \<open>None\<close> against a string raises
  \<open>TypeError\<close>. Sorting a list that holds, for one game, a pair with the selection
  \<open>None\<close> and a pair with a string has to compare two such pairs, whatever their
  places; a list that holds none is sorted without any such comparison.
\<close>

definition pairs :: "diverse_parlay \<Rightarrow> (int \<times> string option) list" where
  "pairs p = map (\<lambda>pick. (game_id (game pick), selection pick)) (picks p)"

definition mixed :: "(int \<times> string option) list \<Rightarrow> bool" where
  "mixed ps = (\<exists>a \<in> set ps. \<exists>b \<in> set ps. fst a = fst b \<and> snd a = None \<and> snd b \<noteq> None)"

definition signature :: "diverse_parlay \<Rightarrow> error + (int \<times> string option) list" where
  "signature p = (if mixed (pairs p) then Inl TypeError else Inr (sort (pairs p)))"

fun dedup_loop ::
  "diverse_parlay list \<Rightarrow> (int \<times> string option) list set \<Rightarrow> diverse_parlay list
     \<Rightarrow> error + diverse_parlay list" where
  "dedup_loop unique seen_signatures [] = Inr unique"
| "dedup_loop unique seen_signatures (p # rest) =
     bind_err (signature p) (\<lambda>sg.
       if sg \<notin> seen_signatures
       then dedup_loop (unique @ [p]) (insert sg seen_signatures) rest
       else dedup_loop unique seen_signatures rest)"

definition deduplicate_parlays :: "diverse_parlay list \<Rightarrow> error + diverse_parlay list" where
  "deduplicate_parlays parlays = dedup_loop [] {} parlays"


text \<open>
  The categories of \<open>generate_diverse_sport_parlays\<close> (lines 75 to 100): the first
  test that holds decides, a leg no test accepts is in no category, and a substring
  test on a bet type that is \<open>None\<close> raises \<open>TypeError\<close>.
  \<^verbatim>\<open>
  if bet_type == "moneyline" or bet_type == "fighter_moneyline" or bet_type == "boxing_moneyline":
      legs_by_type["moneyline"].append(leg)
  elif "alternate_spread" in bet_type: ...
  elif bet_type == "spread": ...
  elif "alternate_total" in bet_type: ...
  elif bet_type == "total": ...
  elif bet_type == "team_total": ...
  elif "quarter" in bet_type or "_q1" in bet_type or "_q2" in bet_type
       or "_q3" in bet_type or "_q4" in bet_type: ...
  elif "half" in bet_type or "_h1" in bet_type or "_h2" in bet_type: ...
  elif "period" in bet_type or "_p1" in bet_type or "_p2" in bet_type
       or "_p3" in bet_type: ...
  elif "innings" in bet_type: ...
  elif bet_type == "prop": ...
  \<close>
\<close>

definition category :: "string option \<Rightarrow> error + string option" where
  "category bt =
     (if bt = Some ''moneyline'' \<or> bt = Some ''fighter_moneyline''
         \<or> bt = Some ''boxing_moneyline'' then Inr (Some ''moneyline'')
      else case bt of
        None \<Rightarrow> Inl TypeError
      | Some t \<Rightarrow>
          Inr (if sublist ''alternate_spread'' t then Some ''alternate_spread''
               else if t = ''spread'' then Some ''spread''
               else if sublist ''alternate_total'' t then Some ''alternate_total''
               else if t = ''total'' then Some ''total''
               else if t = ''team_total'' then Some ''team_total''
               else if sublist ''quarter'' t \<or> sublist ''_q1'' t \<or> sublist ''_q2'' t
                       \<or> sublist ''_q3'' t \<or> sublist ''_q4'' t then Some ''quarter''
               else if sublist ''half'' t \<or> sublist ''_h1'' t \<or> sublist ''_h2'' t
                    then Some ''half''
               else if sublist ''period'' t \<or> sublist ''_p1'' t \<or> sublist ''_p2'' t
                       \<or> sublist ''_p3'' t then Some ''period''
               else if sublist ''innings'' t then Some ''innings''
               else if t = ''prop'' then Some ''prop''
               else None))"

text \<open>
  \<open>legs_by_type\<close>: the legs of each category in the order of \<open>all_legs\<close>, given the
  categories of the legs.
\<close>

definition legs_by_type :: "leg list \<Rightarrow> string option list \<Rightarrow> string \<Rightarrow> leg list" where
  "legs_by_type all_legs cats leg_type =
     map fst (filter (\<lambda>(l, c). c = Some leg_type) (zip all_legs cats))"

text \<open>
  \<^verbatim>\<open>
  def _generate_varied_parlays(self, all_legs, legs_by_type, target_legs, sport):
      parlays = []
      type_combinations = [
          (["moneyline", "spread", "total"], target_legs),
          (["moneyline", "spread", "total", "prop"], target_legs),
          (["moneyline", "alternate_spread", "alternate_total"], target_legs),
          (["moneyline", "team_total", "prop"], target_legs),
          (["moneyline", "quarter", "half"], target_legs),
          (["prop", "moneyline"], target_legs),
          (["alternate_spread", "alternate_total", "moneyline"], target_legs),
      ]
      for type_combo, num_legs in type_combinations:
          selected_legs = []
          for leg_type in type_combo:
              legs = legs_by_type.get(leg_type, [])
              if legs:
                  num_from_type = max(1, num_legs // len(type_combo))
                  selected_legs.extend(legs[:num_from_type])
          while len(selected_legs) < num_legs and len(selected_legs) < len(all_legs):
              remaining = [l for l in all_legs if l not in selected_legs]
              if remaining:
                  selected_legs.append(remaining[0])
              else:
                  break
          if len(selected_legs) >= num_legs:
              for combo in combinations(selected_legs[:num_legs], num_legs):
                  parlay = self._calculate_parlay_metrics(list(combo), sport)
                  if parlay:
                      parlays.append(parlay)
                      if len(parlays) >= 5:
                          break
      return parlays
  \<close>
  The test \<open>l not in selected_legs\<close> compares dicts, as the equality of legs does.
  The \<open>break\<close> leaves the inner loop only.
\<close>

definition type_combinations :: "string list list" where
  "type_combinations =
     [[''moneyline'', ''spread'', ''total''],
      [''moneyline'', ''spread'', ''total'', ''prop''],
      [''moneyline'', ''alternate_spread'', ''alternate_total''],
      [''moneyline'', ''team_total'', ''prop''],
      [''moneyline'', ''quarter'', ''half''],
      [''prop'', ''moneyline''],
      [''alternate_spread'', ''alternate_total'', ''moneyline'']]"

definition select_by_type :: "(string \<Rightarrow> leg list) \<Rightarrow> string list \<Rightarrow> nat \<Rightarrow> leg list" where
  "select_by_type by_type type_combo n =
     concat (map (\<lambda>leg_type.
                    let ls = by_type leg_type in
                    if ls \<noteq> [] then take (max 1 (n div length type_combo)) ls else [])
               type_combo)"

function fill_legs :: "leg list \<Rightarrow> nat \<Rightarrow> leg list \<Rightarrow> leg list" where
  "fill_legs all_legs n selected_legs =
     (if length selected_legs < n \<and> length selected_legs < length all_legs then
        (case filter (\<lambda>l. l \<notin> set selected_legs) all_legs of
           [] \<Rightarrow> selected_legs
         | r # _ \<Rightarrow> fill_legs all_legs n (selected_legs @ [r]))
      else selected_legs)"
  by pat_completeness auto
termination
  by (relation "measure (\<lambda>(all_legs, n, selected_legs). n - length selected_legs)") auto

fun varied_inner ::
  "string \<Rightarrow> diverse_parlay list \<Rightarrow> leg list list \<Rightarrow> error + diverse_parlay list" where
  "varied_inner sp parlays [] = Inr parlays"
| "varied_inner sp parlays (combo # rest) =
     bind_err (calculate_parlay_metrics combo sp) (\<lambda>r.
       case r of
         None \<Rightarrow> varied_inner sp parlays rest
       | Some p \<Rightarrow>
           let parlays' = parlays @ [p] in
           if length parlays' \<ge> 5 then Inr parlays' else varied_inner sp parlays' rest)"

fun varied_outer ::
  "leg list \<Rightarrow> (string \<Rightarrow> leg list) \<Rightarrow> nat \<Rightarrow> string \<Rightarrow> diverse_parlay list
     \<Rightarrow> string list list \<Rightarrow> error + diverse_parlay list" where
  "varied_outer all_legs by_type n sp parlays [] = Inr parlays"
| "varied_outer all_legs by_type n sp parlays (type_combo # rest) =
     (let selected_legs = fill_legs all_legs n (select_by_type by_type type_combo n) in
      if length selected_legs \<ge> n then
        bind_err (varied_inner sp parlays (combinations (take n selected_legs) n))
          (\<lambda>parlays'. varied_outer all_legs by_type n sp parlays' rest)
      else varied_outer all_legs by_type n sp parlays rest)"

definition generate_varied_parlays ::
  "leg list \<Rightarrow> (string \<Rightarrow> leg list) \<Rightarrow> nat \<Rightarrow> string \<Rightarrow> error + diverse_parlay list" where
  "generate_varied_parlays all_legs by_type target_legs sp =
     varied_outer all_legs by_type target_legs sp [] type_combinations"

text \<open>
  \<^verbatim>\<open>
  def generate_diverse_sport_parlays(self, games, sport, max_parlays=3, ensure_variety=True):
      if not games:
          return []
      all_legs = []
      for game in games:
          legs = self.research_engine.analyze_game(game)
          all_legs.extend(legs)
      if len(all_legs) < 2:
          return []
      ... (legs_by_type) ...
      parlay_candidates = []
      if ensure_variety:
          leg_count_targets = [2, 3, 4, 5, 6, 7, 8, 10, 12, 15]
          for target_legs in leg_count_targets:
              if target_legs > len(all_legs):
                  continue
              parlay_candidates.extend(
                  self._generate_varied_parlays(all_legs, legs_by_type, target_legs, sport))
      else:
          for num_legs in range(MIN_PARLAY_LEGS, min(MAX_PARLAY_LEGS + 1, len(all_legs) + 1)):
              for combo in combinations(all_legs[:50], num_legs):
                  parlay = self._calculate_parlay_metrics(combo, sport)
                  if parlay:
                      parlay_candidates.append(parlay)
      parlay_candidates.sort(key=lambda x: x.get("quality_score", 0), reverse=True)
      unique_parlays = self._deduplicate_parlays(parlay_candidates)
      return unique_parlays[:max_parlays]
  \<close>
\<close>

definition leg_count_targets :: "nat list" where
  "leg_count_targets = [2, 3, 4, 5, 6, 7, 8, 10, 12, 15]"

definition keep_some :: "'a option list \<Rightarrow> 'a list" where
  "keep_some rs = concat (map (\<lambda>r. case r of None \<Rightarrow> [] | Some x \<Rightarrow> [x]) rs)"

definition generate_diverse_sport_parlays ::
  "config \<Rightarrow> (game \<Rightarrow> leg list) \<Rightarrow> game list \<Rightarrow> string \<Rightarrow> int \<Rightarrow> bool
     \<Rightarrow> error + diverse_parlay list" where
  "generate_diverse_sport_parlays cfg analyze_game games sp max_parlays ensure_variety =
     (if games = [] then Inr []
      else
        let all_legs = concat (map analyze_game games) in
        if length all_legs < 2 then Inr []
        else
          bind_err (map_err (\<lambda>l. category (bet_type l)) all_legs) (\<lambda>cats.
          bind_err
            (if ensure_variety then
               bind_err
                 (map_err (\<lambda>target_legs.
                             if target_legs > length all_legs then Inr []
                             else generate_varied_parlays all_legs
                                    (legs_by_type all_legs cats) target_legs sp)
                    leg_count_targets)
                 (\<lambda>groups. Inr (concat groups))
             else
               bind_err
                 (map_err (\<lambda>k. bind_err (py_combinations (take 50 all_legs) k)
                                   (map_err (\<lambda>combo. calculate_parlay_metrics combo sp)))
                    (py_range (MIN_PARLAY_LEGS cfg)
                       (min (MAX_PARLAY_LEGS cfg + 1) (int (length all_legs) + 1))))
                 (\<lambda>groups. Inr (keep_some (concat groups))))
            (\<lambda>parlay_candidates.
               bind_err
                 (deduplicate_parlays
                    (sort_key (\<lambda>x. - quality_score x) parlay_candidates))
                 (\<lambda>unique_parlays. Inr (py_take max_parlays unique_parlays)))))"




section \<open>Analysis of a game (research\_engine.py, analyze\_game)\<close>

text \<open>
  A row of the table \<open>player_props\<close>: \<open>player_name\<close> and \<open>prop_type\<close> are not nullable,
  the other columns are.
\<close>

record player_prop =
  player_name :: string
  prop_type :: string
  prop_value :: "real option"
  over_odds :: "real option"
  under_odds :: "real option"
  yes_odds :: "real option"
  market_key :: "string option"
  description :: "string option"

text \<open>
  A block under the guard \<^verbatim>\<open>if column and cond\<close>: it runs, on the value of the column,
  when the column is neither \<open>None\<close> nor zero and the condition holds.
\<close>

definition guarded ::
  "real option \<Rightarrow> bool \<Rightarrow> (real \<Rightarrow> error + leg list) \<Rightarrow> error + leg list" where
  "guarded column cond block =
     (case column of
        None \<Rightarrow> Inr []
      | Some x \<Rightarrow> if x \<noteq> 0 \<and> cond then block x else Inr [])"

text \<open>Truth values of a nullable float and of a nullable string.\<close>

definition truthy :: "real option \<Rightarrow> bool" where
  "truthy v = (case v of None \<Rightarrow> False | Some x \<Rightarrow> x \<noteq> 0)"

definition truthy_str :: "string option \<Rightarrow> bool" where
  "truthy_str v = (case v of None \<Rightarrow> False | Some t \<Rightarrow> t \<noteq> [])"

text \<open>
  \<open>a or b\<close> on a string and a nullable string (the first if it is not empty, else the
  second, whatever it is); a chain \<open>a or b or "default"\<close> ending in a string that is
  not empty; a nullable string in an f-string.
\<close>

definition str_or :: "string \<Rightarrow> string option \<Rightarrow> string option" where
  "str_or a b = (if a \<noteq> [] then Some a else b)"

fun first_truthy :: "string option list \<Rightarrow> string \<Rightarrow> string" where
  "first_truthy [] d = d"
| "first_truthy (v # vs) d =
     (case v of
        None \<Rightarrow> first_truthy vs d
      | Some t \<Rightarrow> if t \<noteq> [] then t else first_truthy vs d)"

definition str_of :: "string option \<Rightarrow> string" where
  "str_of v = (case v of None \<Rightarrow> ''None'' | Some t \<Rightarrow> t)"

text \<open>\<open>name.replace("TEAM_", "")\<close>: every occurrence, from the left, is removed.\<close>

function replace_team :: "string \<Rightarrow> string" where
  "replace_team cs =
     (if cs = [] then []
      else if prefix ''TEAM_'' cs then replace_team (drop 5 cs)
      else hd cs # replace_team (tl cs))"
  by pat_completeness auto
termination
  by (relation "measure length") (auto simp: prefix_def)

text \<open>
  \<^verbatim>\<open>
  def calculate_confidence_score(self, game, bet_type, selection):
      score = 0.5
      if bet_type == "moneyline":
          if selection == game.home_team:
              odds = game.home_moneyline
          else:
              odds = game.away_moneyline
          if odds:
              implied_prob = self.american_to_implied_prob(odds)
              if 0.45 <= implied_prob <= 0.55:
                  score = 0.65
              elif 0.4 <= implied_prob <= 0.6:
                  score = 0.6
              else:
                  score = 0.55
      elif bet_type == "prop":
          score = 0.62
      elif bet_type == "fighter_moneyline":
          score = 0.6
      return min(max(score, 0.0), 1.0)
  \<close>
\<close>

definition calculate_confidence_score :: "game \<Rightarrow> string option \<Rightarrow> string option \<Rightarrow> real" where
  "calculate_confidence_score g bt sel =
     (let sc =
        (if bt = Some ''moneyline'' then
           (let ml = (if sel = home_team g then home_moneyline g
                      else away_moneyline g)
            in case ml of
                 None \<Rightarrow> 5 / 10
               | Some x \<Rightarrow>
                   if x = 0 then 5 / 10
                   else
                     let implied_prob = american_to_implied_prob x in
                     if 45 / 100 \<le> implied_prob \<and> implied_prob \<le> 55 / 100 then 65 / 100
                     else if 4 / 10 \<le> implied_prob \<and> implied_prob \<le> 6 / 10 then 6 / 10
                     else 55 / 100)
         else if bt = Some ''prop'' then 62 / 100
         else if bt = Some ''fighter_moneyline'' then 6 / 10
         else 5 / 10)
      in min (max sc 0) 1)"

text \<open>
  \<open>estimate_true_probability\<close> asks the predictors and is a parameter (its last
  argument is the prop, \<open>None\<close> for a main market); so are the two renderings of a
  float in an f-string, \<open>{v}\<close> and \<open>{v:.1f}\<close>.
\<close>

record env =
  estimate_true_probability ::
    "game \<Rightarrow> string option \<Rightarrow> string option \<Rightarrow> player_prop option \<Rightarrow> real"
  fmt :: "real option \<Rightarrow> string"
  fmt1 :: "real option \<Rightarrow> string"

text \<open>
  The moneyline blocks of \<open>analyze_game\<close> (lines 197 to 233 and 268 to 304), here for
  the home team:
  \<^verbatim>\<open>
  if game.home_moneyline:
      true_prob = self.estimate_true_probability(game, "moneyline", game.home_team)
      implied_prob = self.american_to_implied_prob(game.home_moneyline)
      ev = self.calculate_expected_value(implied_prob, true_prob, game.home_moneyline)
      confidence = self.calculate_confidence_score(game, "moneyline", game.home_team)
      if ev > 0 and confidence >= MIN_CONFIDENCE:
          legs.append({"game": game, "bet_type": "moneyline",
                       "selection": game.home_team, "odds": game.home_moneyline,
                       "implied_probability": implied_prob,
                       "true_probability": true_prob, "expected_value": ev,
                       "confidence_score": confidence,
                       "reasoning": f"Home team moneyline with {ev*100:.1f}% EV"})
  \<close>
  The four blocks differ in the bet type, the selection, the odds column and the first
  words of the reasoning.
\<close>

definition moneyline_leg ::
  "config \<Rightarrow> env \<Rightarrow> game \<Rightarrow> string option \<Rightarrow> string option \<Rightarrow> string \<Rightarrow> real
     \<Rightarrow> error + leg list" where
  "moneyline_leg cfg e g bt sel who x =
     (let true_prob = estimate_true_probability e g bt sel None;
          implied_prob = american_to_implied_prob x
      in bind_err (calculate_expected_value implied_prob true_prob x) (\<lambda>ev.
           let confidence = calculate_confidence_score g bt sel in
           if ev > 0 \<and> confidence \<ge> MIN_CONFIDENCE cfg then
             Inr [\<lparr>game = g, bet_type = bt, selection = sel, odds = x,
                   implied_probability = implied_prob,
                   true_probability = Some true_prob, expected_value = ev,
                   confidence_score = confidence,
                   reasoning = who @ '' moneyline with '' @ fmt1 e (Some (ev * 100))
                               @ ''% EV'',
                   market_keys = MainKeys\<rparr>]
           else Inr []))"

text \<open>
  The spread and the total block (lines 236 to 264):
  \<^verbatim>\<open>
  if game.spread and game.spread_home_odds:
      confidence = self.calculate_confidence_score(game, "spread", game.home_team)
      if confidence >= MIN_CONFIDENCE:
          legs.append({"game": game, "bet_type": "spread",
                       "selection": f"{game.home_team} {game.spread}",
                       "odds": game.spread_home_odds,
                       "implied_probability":
                           self.american_to_implied_prob(game.spread_home_odds),
                       "expected_value": 0.05,
                       "confidence_score": confidence,
                       "reasoning": f"Home team spread {game.spread}"})
  if game.total and game.over_odds:
      confidence = self.calculate_confidence_score(game, "total", "over")
      if confidence >= MIN_CONFIDENCE:
          legs.append({..., "bet_type": "total", "selection": f"Over {game.total}",
                       "odds": game.over_odds, ..., "expected_value": 0.05, ...,
                       "reasoning": f"Over {game.total} total points"})
  \<close>
\<close>

definition fixed_leg ::
  "config \<Rightarrow> game \<Rightarrow> string option \<Rightarrow> string option \<Rightarrow> string \<Rightarrow> string \<Rightarrow> real
     \<Rightarrow> error + leg list" where
  "fixed_leg cfg g bt conf_sel leg_sel why x =
     (let confidence = calculate_confidence_score g bt conf_sel in
      if confidence \<ge> MIN_CONFIDENCE cfg then
        Inr [\<lparr>game = g, bet_type = bt, selection = Some leg_sel, odds = x,
              implied_probability = american_to_implied_prob x,
              true_probability = None, expected_value = 5 / 100,
              confidence_score = confidence, reasoning = why,
              market_keys = MainKeys\<rparr>]
      else Inr [])"

text \<open>
  Lines 196 to 304 of \<open>analyze_game\<close>: the two moneylines, the spread, the total and,
  for a fight, the two fighter moneylines, each under its guard.
\<close>

definition main_market_legs :: "config \<Rightarrow> env \<Rightarrow> game \<Rightarrow> error + leg list" where
  "main_market_legs cfg e g =
     bind_err
       (guarded (home_moneyline g) True
          (moneyline_leg cfg e g (Some ''moneyline'') (home_team g) ''Home team''))
       (\<lambda>home_legs.
     bind_err
       (guarded (away_moneyline g) True
          (moneyline_leg cfg e g (Some ''moneyline'') (away_team g) ''Away team''))
       (\<lambda>away_legs.
     bind_err
       (guarded (spread_home_odds g) (truthy (spread g))
          (fixed_leg cfg g (Some ''spread'') (home_team g)
             (str_of (home_team g) @ '' '' @ fmt e (spread g))
             (''Home team spread '' @ fmt e (spread g))))
       (\<lambda>spread_legs.
     bind_err
       (guarded (game_over_odds g) (truthy (game_total g))
          (fixed_leg cfg g (Some ''total'') (Some ''over'')
             (''Over '' @ fmt e (game_total g))
             (''Over '' @ fmt e (game_total g) @ '' total points'')))
       (\<lambda>total_legs.
     bind_err
       (if game_sport g \<in> {''UFC'', ''BOXING''} then
          bind_err
            (guarded (home_moneyline g) (truthy_str (fighter1 g))
               (moneyline_leg cfg e g (Some ''fighter_moneyline'') (fighter1 g)
                  (str_of (fighter1 g))))
            (\<lambda>first_legs.
          bind_err
            (guarded (away_moneyline g) (truthy_str (fighter2 g))
               (moneyline_leg cfg e g (Some ''fighter_moneyline'') (fighter2 g)
                  (str_of (fighter2 g))))
            (\<lambda>second_legs. Inr (first_legs @ second_legs)))
        else Inr [])
       (\<lambda>fighter_legs.
          Inr (home_legs @ away_legs @ spread_legs @ total_legs @ fighter_legs))))))"

text \<open>
  The block \<open>analyze_game\<close> repeats for the over, under and yes side of every player
  prop and of every team market (lines 319 to 344, 347 to 370, 374 to 397, 406 to 429,
  432 to 455, 459 to 481), here for the over side of a player prop:
  \<^verbatim>\<open>
  confidence = self.calculate_confidence_score(game, "prop", f"... over")
  prop_min_confidence = MIN_CONFIDENCE * 0.9
  if confidence >= prop_min_confidence:
      implied_prob = self.american_to_implied_prob(prop.over_odds)
      true_prob = self.estimate_true_probability(game, "prop", f"over {prop.prop_value}",
                                                 prop=prop)
      ev = self.calculate_expected_value(implied_prob, true_prob, prop.over_odds)
      if ev > -0.02:
          legs.append({"game": game, "bet_type": "prop",
                       "selection": f"Over {prop.prop_value}",
                       "odds": prop.over_odds,
                       "implied_probability": implied_prob,
                       "true_probability": true_prob,
                       "expected_value": max(ev, 0.01),
                       "confidence_score": confidence,
                       "prop_type": prop.prop_type or prop.market_key or "points",
                       "prop_value": prop.prop_value,
                       "player_name": prop.player_name,
                       "market_key": prop.market_key,
                       "reasoning": f"{prop.player_name} {prop.description or
                           prop.prop_type or 'points'} over {prop.prop_value} with
                           {ev*100:.1f}% EV"})
  \<close>
  The blocks differ in the bet type, in the three strings, in the keys of the market,
  in the words of the reasoning before \<open>with ...% EV\<close> and in the odds column.
\<close>

definition market_leg ::
  "config \<Rightarrow> env \<Rightarrow> game \<Rightarrow> player_prop \<Rightarrow> string option \<Rightarrow> string \<Rightarrow> string
     \<Rightarrow> string \<Rightarrow> market_keys \<Rightarrow> string \<Rightarrow> real \<Rightarrow> error + leg list" where
  "market_leg cfg e g prop bt conf_sel est_sel leg_sel keys why x =
     (let confidence = calculate_confidence_score g bt (Some conf_sel);
          prop_min_confidence = MIN_CONFIDENCE cfg * (9 / 10)
      in if confidence \<ge> prop_min_confidence then
           (let implied_prob = american_to_implied_prob x;
                true_prob = estimate_true_probability e g bt (Some est_sel) (Some prop)
            in bind_err (calculate_expected_value implied_prob true_prob x) (\<lambda>ev.
                 if ev > - (2 / 100) then
                   Inr [\<lparr>game = g, bet_type = bt, selection = Some leg_sel, odds = x,
                         implied_probability = implied_prob,
                         true_probability = Some true_prob,
                         expected_value = max ev (1 / 100),
                         confidence_score = confidence,
                         reasoning = why @ '' with '' @ fmt1 e (Some (ev * 100))
                                     @ ''% EV'',
                         market_keys = keys\<rparr>]
                 else Inr []))
         else Inr [])"

text \<open>
  The body of \<^verbatim>\<open>for prop in player_props\<close>: the over, the under and the yes block, each
  under its guard (\<^verbatim>\<open>if prop.over_odds and prop.prop_value is not None\<close>,
  \<^verbatim>\<open>if prop.under_odds and prop.prop_value is not None\<close>, \<^verbatim>\<open>if prop.yes_odds\<close>). The yes
  block has \<open>"prop_value": None\<close>, the default \<open>"anytime_td"\<close> for the prop type and
  \<open>'anytime TD'\<close> for the description.
\<close>

definition player_prop_legs :: "config \<Rightarrow> env \<Rightarrow> game \<Rightarrow> player_prop \<Rightarrow> error + leg list" where
  "player_prop_legs cfg e g prop =
     (let what = first_truthy [description prop, Some (prop_type prop)] ''points'';
          keys = PlayerKeys (first_truthy [Some (prop_type prop), market_key prop] ''points'')
                   (prop_value prop) (player_name prop) (market_key prop)
      in
     bind_err
       (guarded (over_odds prop) (prop_value prop \<noteq> None)
          (market_leg cfg e g prop (Some ''prop'')
             (player_name prop @ '' '' @ prop_type prop @ '' over'')
             (''over '' @ fmt e (prop_value prop))
             (''Over '' @ fmt e (prop_value prop))
             keys
             (player_name prop @ '' '' @ what @ '' over '' @ fmt e (prop_value prop))))
       (\<lambda>over_legs.
     bind_err
       (guarded (under_odds prop) (prop_value prop \<noteq> None)
          (market_leg cfg e g prop (Some ''prop'')
             (player_name prop @ '' '' @ prop_type prop @ '' under'')
             (''under '' @ fmt e (prop_value prop))
             (''Under '' @ fmt e (prop_value prop))
             keys
             (player_name prop @ '' '' @ what @ '' under '' @ fmt e (prop_value prop))))
       (\<lambda>under_legs.
     bind_err
       (guarded (yes_odds prop) True
          (market_leg cfg e g prop (Some ''prop'')
             (player_name prop @ '' '' @ prop_type prop @ '' yes'')
             ''yes'' ''Yes''
             (PlayerKeys
                (first_truthy [Some (prop_type prop), market_key prop] ''anytime_td'')
                None (player_name prop) (market_key prop))
             (player_name prop @ '' ''
                @ first_truthy [description prop, Some (prop_type prop)] ''anytime TD''
                @ '' - Yes'')))
       (\<lambda>yes_legs. Inr (over_legs @ under_legs @ yes_legs)))))"

text \<open>
  The body of \<^verbatim>\<open>for market in team_markets\<close>, with
  \<^verbatim>\<open>bet_type = market.prop_type or market.market_key\<close> and
  \<^verbatim>\<open>selection = market.player_name.replace("TEAM_", "")\<close>; the legs carry
  \<open>"prop_type": bet_type\<close>, \<open>"market_key"\<close>, \<open>"description": market.description or
  selection\<close> and, but for the yes block, \<open>"prop_value"\<close>.
\<close>

definition team_market_legs :: "config \<Rightarrow> env \<Rightarrow> game \<Rightarrow> player_prop \<Rightarrow> error + leg list" where
  "team_market_legs cfg e g market =
     (let bt = str_or (prop_type market) (market_key market);
          sel = replace_team (player_name market);
          descr = first_truthy [description market] sel
      in
     bind_err
       (guarded (over_odds market) (prop_value market \<noteq> None)
          (market_leg cfg e g market bt (sel @ '' over'')
             (''over '' @ fmt e (prop_value market))
             (''Over '' @ fmt1 e (prop_value market))
             (TeamKeys bt (prop_value market) (market_key market) descr)
             (sel @ '' over '' @ fmt1 e (prop_value market))))
       (\<lambda>over_legs.
     bind_err
       (guarded (under_odds market) (prop_value market \<noteq> None)
          (market_leg cfg e g market bt (sel @ '' under'')
             (''under '' @ fmt e (prop_value market))
             (''Under '' @ fmt1 e (prop_value market))
             (TeamKeys bt (prop_value market) (market_key market) descr)
             (sel @ '' under '' @ fmt1 e (prop_value market))))
       (\<lambda>under_legs.
     bind_err
       (guarded (yes_odds market) True
          (market_leg cfg e g market bt sel ''yes'' sel
             (TeamKeys bt None (market_key market) descr) sel))
       (\<lambda>yes_legs. Inr (over_legs @ under_legs @ yes_legs)))))"

text \<open>
  Lines 306 to 481 of \<open>analyze_game\<close>: the rows of the game are split on the prefix
  \<open>TEAM_\<close> of the player name, the player props are analysed first, then the team
  markets; the legs are appended in that order.
\<close>

definition analyze_props :: "config \<Rightarrow> env \<Rightarrow> game \<Rightarrow> player_prop list \<Rightarrow> error + leg list" where
  "analyze_props cfg e g props =
     (let player_props = filter (\<lambda>p. \<not> prefix ''TEAM_'' (player_name p)) props;
          team_markets = filter (\<lambda>p. prefix ''TEAM_'' (player_name p)) props
      in bind_err (map_err (player_prop_legs cfg e g) player_props) (\<lambda>a.
         bind_err (map_err (team_market_legs cfg e g) team_markets) (\<lambda>b.
         Inr (concat a @ concat b))))"

text \<open>
  \<open>analyze_game\<close>: the legs of the main markets, then those of the rows the query
  \<^verbatim>\<open>self.session.query(PlayerProp).filter_by(game_id=game.id).all()\<close> returns, here an
  argument.
\<close>

definition analyze_game :: "config \<Rightarrow> env \<Rightarrow> game \<Rightarrow> player_prop list \<Rightarrow> error + leg list" where
  "analyze_game cfg e g props =
     bind_err (main_market_legs cfg e g) (\<lambda>main_legs.
     bind_err (analyze_props cfg e g props) (\<lambda>prop_legs.
     Inr (main_legs @ prop_legs)))"


section \<open>The coefficients as the specification words them\<close>

text \<open>
  The specification's table of pairwise coefficients, written from its words for the
  comparison with \<open>calculate_correlation_penalty\<close>: 1.0 same selection, 0.9 same game
  and same bet type, 0.7 same game and related bet types (moneyline and spread),
  0.5 same game and unrelated bet types, 0.1 different games.
\<close>

definition spec_correlation_coefficient :: "leg \<Rightarrow> leg \<Rightarrow> real" where
  "spec_correlation_coefficient leg1 leg2 =
     (if game_id (game leg1) = game_id (game leg2) then
        (if selection leg1 = selection leg2 then 1
         else if bet_type leg1 = bet_type leg2 then 9 / 10
         else if {bet_type leg1, bet_type leg2} = {Some ''moneyline'', Some ''spread''} then 7 / 10
         else 5 / 10)
      else 1 / 10)"

definition spec_correlation_penalty :: "leg list \<Rightarrow> real" where
  "spec_correlation_penalty ls =
     min ((\<Sum>(a, b) \<leftarrow> leg_pairs ls. spec_correlation_coefficient a b)
          / real (length ls choose 2)) 1"

text \<open>The number of distinct games among the legs of a candidate.\<close>

definition distinct_games :: "leg list \<Rightarrow> nat" where
  "distinct_games ls = card (set (map (\<lambda>l. game_id (game l)) ls))"



text \<open>
  What \<open>analyze_game\<close> guarantees of a prop or team-market leg: the expected value
  computed from its own odds and probabilities exceeds \<open>-0.02\<close>, and the reported one
  is that value raised to at least \<open>0.01\<close>.
\<close>

definition leg_ok :: "leg \<Rightarrow> bool" where
  "leg_ok l =
     (\<exists>tp ev. true_probability l = Some tp \<and>
        calculate_expected_value (implied_probability l) tp (odds l) = Inr ev \<and>
        - (2 / 100) < ev \<and> expected_value l = max ev (1 / 100))"


text \<open>
  The bounds on the number of legs of a returned candidate: those of
  \<open>generate_same_game_parlays\<close> for a same-game parlay, the configured ones otherwise.
\<close>

definition within_bounds :: "config \<Rightarrow> parlay \<Rightarrow> bool" where
  "within_bounds cfg p =
     (num_legs p = length (legs p) \<and>
      (if is_sgp p
       then max (MIN_PARLAY_LEGS cfg) 4 \<le> int (num_legs p) \<and> num_legs p \<le> 8
       else MIN_PARLAY_LEGS cfg \<le> int (num_legs p) \<and>
            int (num_legs p) \<le> MAX_PARLAY_LEGS cfg))"


section \<open>Example data\<close>

text \<open>
  Three games and a few legs of the shape \<open>analyze_game\<close> produces, used where a
  statement is evaluated at a concrete input.
\<close>

definition game1 :: game where
  "game1 = \<lparr>game_id = 1, game_sport = ''NBA'', home_team = Some ''Lakers'',
               away_team = Some ''Celtics'', fighter1 = None, fighter2 = None,
               home_moneyline = Some (- 110), away_moneyline = Some 120, spread = None,
               spread_home_odds = None, game_total = None, game_over_odds = None\<rparr>"

definition game2 :: game where
  "game2 = \<lparr>game_id = 2, game_sport = ''NBA'', home_team = Some ''Bulls'',
               away_team = Some ''Knicks'', fighter1 = None, fighter2 = None,
               home_moneyline = Some 150, away_moneyline = Some (- 170), spread = None,
               spread_home_odds = None, game_total = None, game_over_odds = None\<rparr>"

definition game3 :: game where
  "game3 = \<lparr>game_id = 3, game_sport = ''NBA'', home_team = Some ''Heat'',
               away_team = Some ''Nets'', fighter1 = None, fighter2 = None,
               home_moneyline = Some (- 150), away_moneyline = Some 130, spread = None,
               spread_home_odds = None, game_total = None, game_over_odds = None\<rparr>"

definition leg_home1 :: leg where
  "leg_home1 = \<lparr>game = game1, bet_type = Some ''moneyline'', selection = Some ''Lakers'',
     odds = -110, implied_probability = 11 / 21, true_probability = Some (55 / 100),
     expected_value = 5 / 100, confidence_score = 65 / 100,
     reasoning = ''Home team moneyline with 5.0% EV'',
     market_keys = MainKeys\<rparr>"

definition leg_away1 :: leg where
  "leg_away1 = \<lparr>game = game1, bet_type = Some ''moneyline'', selection = Some ''Celtics'',
     odds = 120, implied_probability = 5 / 11, true_probability = Some (48 / 100),
     expected_value = 56 / 1000, confidence_score = 65 / 100,
     reasoning = ''Away team moneyline with 5.6% EV'',
     market_keys = MainKeys\<rparr>"

definition leg_spread1 :: leg where
  "leg_spread1 = \<lparr>game = game1, bet_type = Some ''spread'', selection = Some ''Lakers -3.5'',
     odds = -105, implied_probability = 21 / 41, true_probability = None,
     expected_value = 5 / 100, confidence_score = 60 / 100,
     reasoning = ''Home team spread -3.5'',
     market_keys = MainKeys\<rparr>"

definition leg_home2 :: leg where
  "leg_home2 = \<lparr>game = game2, bet_type = Some ''moneyline'', selection = Some ''Bulls'',
     odds = 150, implied_probability = 2 / 5, true_probability = Some (45 / 100),
     expected_value = 125 / 1000, confidence_score = 60 / 100,
     reasoning = ''Home team moneyline with 12.5% EV'',
     market_keys = MainKeys\<rparr>"

definition leg_home3 :: leg where
  "leg_home3 = \<lparr>game = game3, bet_type = Some ''moneyline'', selection = Some ''Heat'',
     odds = -150, implied_probability = 3 / 5, true_probability = Some (65 / 100),
     expected_value = 1 / 12, confidence_score = 60 / 100,
     reasoning = ''Home team moneyline with 8.3% EV'',
     market_keys = MainKeys\<rparr>"


definition game4 :: game where
  "game4 = \<lparr>game_id = 4, game_sport = ''NBA'', home_team = Some ''Suns'',
               away_team = Some ''Jazz'', fighter1 = None, fighter2 = None,
               home_moneyline = Some 110, away_moneyline = Some (- 130), spread = None,
               spread_home_odds = None, game_total = None, game_over_odds = None\<rparr>"

definition game5 :: game where
  "game5 = \<lparr>game_id = 5, game_sport = ''NBA'', home_team = Some ''Kings'',
               away_team = Some ''Spurs'', fighter1 = None, fighter2 = None,
               home_moneyline = Some (- 120), away_moneyline = Some 100, spread = None,
               spread_home_odds = None, game_total = None, game_over_odds = None\<rparr>"

definition leg_spread2 :: leg where
  "leg_spread2 = \<lparr>game = game2, bet_type = Some ''spread'', selection = Some ''Bulls 4.5'',
     odds = -110, implied_probability = 11 / 21, true_probability = None,
     expected_value = 5 / 100, confidence_score = 60 / 100,
     reasoning = ''Home team spread 4.5'',
     market_keys = MainKeys\<rparr>"

definition leg_home4 :: leg where
  "leg_home4 = \<lparr>game = game4, bet_type = Some ''moneyline'', selection = Some ''Suns'',
     odds = 110, implied_probability = 10 / 21, true_probability = Some (50 / 100),
     expected_value = 5 / 100, confidence_score = 65 / 100,
     reasoning = ''Home team moneyline with 5.0% EV'',
     market_keys = MainKeys\<rparr>"

definition leg_home5 :: leg where
  "leg_home5 = \<lparr>game = game5, bet_type = Some ''moneyline'', selection = Some ''Kings'',
     odds = -120, implied_probability = 6 / 11, true_probability = Some (57 / 100),
     expected_value = 45 / 1000, confidence_score = 65 / 100,
     reasoning = ''Home team moneyline with 4.5% EV'',
     market_keys = MainKeys\<rparr>"

text \<open>A candidate dict with the given legs and score, its other entries fixed.\<close>

definition candidate_of :: "leg list \<Rightarrow> real \<Rightarrow> parlay" where
  "candidate_of ls sc =
     \<lparr>legs = ls, num_legs = length ls, combined_odds = 600,
      combined_implied_prob = 1 / 7, parlay_ev = 0, confidence_rating = ''Low'',
      avg_confidence = 6 / 10, score = sc, has_props = False, prop_count = None,
      is_sgp = False, sgp_game = None, avg_correlation = None, adjusted_score = None,
      recommended_stake_pct = None\<rparr>"

text \<open>
  Five three-leg combinations over the games 1 and 2, with the five highest scores,
  followed by a lower-scoring combination over the games 3, 4 and 5.
\<close>

definition same_game_pool :: "parlay list" where
  "same_game_pool =
     [candidate_of [leg_home1, leg_spread1, leg_home2] (9 / 10),
      candidate_of [leg_home1, leg_away1, leg_home2] (8 / 10),
      candidate_of [leg_away1, leg_spread1, leg_home2] (7 / 10),
      candidate_of [leg_home1, leg_home2, leg_spread2] (6 / 10),
      candidate_of [leg_spread1, leg_home2, leg_spread2] (5 / 10),
      candidate_of [leg_home3, leg_home4, leg_home5] (1 / 10)]"


definition leg_total3 :: leg where
  "leg_total3 = \<lparr>game = game3, bet_type = Some ''total'', selection = Some ''Over 210.5'',
     odds = -110, implied_probability = 11 / 21, true_probability = None,
     expected_value = 5 / 100, confidence_score = 60 / 100,
     reasoning = ''Over 210.5 total points'',
     market_keys = MainKeys\<rparr>"

text \<open>A leg dict whose odds are 0, and a pool of nine legs with nonzero odds.\<close>

definition leg_zero :: leg where
  "leg_zero = \<lparr>game = game4, bet_type = Some ''spread'', selection = Some ''Suns -1.5'',
     odds = 0, implied_probability = 0, true_probability = None,
     expected_value = 5 / 100, confidence_score = 60 / 100,
     reasoning = ''Home team spread -1.5'',
     market_keys = MainKeys\<rparr>"

definition nine_legs :: "leg list" where
  "nine_legs = [leg_home1, leg_away1, leg_spread1, leg_home2, leg_spread2, leg_home3,
                leg_total3, leg_home4, leg_home5]"


text \<open>
  A player prop at \<open>-110\<close> on both sides, and predictors under which the over is a fair
  bet and the under a losing one.
\<close>

definition points_prop :: player_prop where
  "points_prop = \<lparr>player_name = ''LeBron James'', prop_type = ''player_points'',
     prop_value = Some (51 / 2), over_odds = Some (- 110), under_odds = Some (- 110),
     yes_odds = None, market_key = Some ''player_points'', description = None\<rparr>"

definition example_env :: env where
  "example_env = \<lparr>estimate_true_probability =
                    (\<lambda>g bt sel p. if sel = Some ''over 25.5'' then 11 / 21 else 1 / 2),
                  fmt = (\<lambda>v. ''25.5''), fmt1 = (\<lambda>v. ''0.0'')\<rparr>"


text \<open>
  Yes/no props: every such leg has the selection \<open>Yes\<close>, so two legs of one game can
  share the pair of game and selection.
\<close>

definition leg_yes1a :: leg where
  "leg_yes1a = \<lparr>game = game1, bet_type = Some ''prop'', selection = Some ''Yes'',
     odds = 100, implied_probability = 1 / 2, true_probability = Some (1 / 2),
     expected_value = 1 / 100, confidence_score = 62 / 100,
     reasoning = ''A. Davis anytime_td - Yes with 0.0% EV'',
     market_keys = PlayerKeys ''anytime_td'' None ''A. Davis'' (Some ''anytime_td'')\<rparr>"

definition leg_yes1b :: leg where
  "leg_yes1b = \<lparr>game = game1, bet_type = Some ''prop'', selection = Some ''Yes'',
     odds = 120, implied_probability = 5 / 11, true_probability = Some (5 / 11),
     expected_value = 1 / 100, confidence_score = 62 / 100,
     reasoning = ''J. Brown anytime_td - Yes with 0.0% EV'',
     market_keys = PlayerKeys ''anytime_td'' None ''J. Brown'' (Some ''anytime_td'')\<rparr>"

definition leg_yes2a :: leg where
  "leg_yes2a = \<lparr>game = game2, bet_type = Some ''prop'', selection = Some ''Yes'',
     odds = 100, implied_probability = 1 / 2, true_probability = Some (1 / 2),
     expected_value = 1 / 100, confidence_score = 62 / 100,
     reasoning = ''C. White anytime_td - Yes with 0.0% EV'',
     market_keys = PlayerKeys ''anytime_td'' None ''C. White'' (Some ''anytime_td'')\<rparr>"

definition leg_yes2b :: leg where
  "leg_yes2b = \<lparr>game = game2, bet_type = Some ''prop'', selection = Some ''Yes'',
     odds = 120, implied_probability = 5 / 11, true_probability = Some (5 / 11),
     expected_value = 1 / 100, confidence_score = 62 / 100,
     reasoning = ''J. Brunson anytime_td - Yes with 0.0% EV'',
     market_keys = PlayerKeys ''anytime_td'' None ''J. Brunson'' (Some ''anytime_td'')\<rparr>"


text \<open>
  The dict \<open>_calculate_parlay_metrics\<close> returns for three of these legs, two of one
  game and one of the other (the metrics do not depend on which).
\<close>

definition yes_parlay :: "leg list \<Rightarrow> diverse_parlay" where
  "yes_parlay ls =
     \<lparr>picks = ls, d_num_legs = 3, sport = ''NBA'', d_combined_odds = 780,
      decimal_odds = 44 / 5, combined_confidence = 29791 / 125000,
      potential_payouts = (88, 220, 440, 880), bet_types = {Some ''prop''},
      num_games = 2, avg_expected_value = 1 / 100,
      quality_score = 1310804 / 46875\<rparr>"

definition parlay_x :: diverse_parlay where
  "parlay_x = yes_parlay [leg_yes1a, leg_yes1b, leg_yes2a]"


definition parlay_y :: diverse_parlay where
  "parlay_y = yes_parlay [leg_yes1a, leg_yes2a, leg_yes2b]"


text \<open>
  The configuration \<open>min_legs = 2\<close>, \<open>max_legs = 4\<close>, and an analysis that finds five legs
  in game 1 and none elsewhere.
\<close>

definition config_2_4 :: config where
  "config_2_4 = \<lparr>MIN_CONFIDENCE = 6 / 10, MAX_PARLAY_LEGS = 4, MIN_PARLAY_LEGS = 2\<rparr>"

definition five_legs_of_game1 :: "game \<Rightarrow> leg list" where
  "five_legs_of_game1 g =
     (if game_id g = 1 then [leg_home1, leg_away1, leg_spread1, leg_yes1a, leg_yes1b]
      else [])"

text \<open>An analysis that finds one leg in game 1 and none elsewhere.\<close>

definition one_leg_of_game1 :: "game \<Rightarrow> leg list" where
  "one_leg_of_game1 g = (if game_id g = 1 then [leg_home1] else [])"


text \<open>
  An analysis that finds one leg in game 1 and one in game 2, and the one candidate
  \<open>generate_parlays\<close> returns for it under the default configuration.
\<close>

definition two_legs :: "game \<Rightarrow> leg list" where
  "two_legs g =
     (if game_id g = 1 then [leg_home1] else if game_id g = 2 then [leg_home2] else [])"

definition two_leg_parlay :: parlay where
  "two_leg_parlay =
     \<lparr>legs = [leg_home1, leg_home2], num_legs = 2, combined_odds = 4150 / 11,
      combined_implied_prob = 22 / 105, parlay_ev = 0, confidence_rating = ''Low'',
      avg_confidence = 5 / 8, score = 259 / 1200, has_props = False, prop_count = None,
      is_sgp = False, sgp_game = None, avg_correlation = Some (1 / 10),
      adjusted_score = Some (19 / 48), recommended_stake_pct = Some 0\<rparr>"


text \<open>The one candidate \<open>generate_diverse_sport_parlays\<close> returns for the same analysis.\<close>

definition two_leg_diverse :: diverse_parlay where
  "two_leg_diverse =
     \<lparr>picks = [leg_home1, leg_home2], d_num_legs = 2, sport = ''NBA'',
      d_combined_odds = 4150 / 11, decimal_odds = 105 / 22,
      combined_confidence = 39 / 100,
      potential_payouts = (525 / 11, 2625 / 22, 2625 / 11, 5250 / 11),
      bet_types = {Some ''moneyline''}, num_games = 2, avg_expected_value = 7 / 80,
      quality_score = 1287 / 16\<rparr>"

text \<open>
  A fight, for which the team names are \<open>None\<close>, with a line on the first fighter
  only, and predictors that give every side the probability 0.6.
\<close>

definition fight :: game where
  "fight = \<lparr>game_id = 6, game_sport = ''UFC'', home_team = None, away_team = None,
             fighter1 = Some ''Jon Jones'', fighter2 = Some ''Stipe Miocic'',
             home_moneyline = Some (- 110), away_moneyline = None, spread = None,
             spread_home_odds = None, game_total = None, game_over_odds = None\<rparr>"

definition fight_env :: env where
  "fight_env = \<lparr>estimate_true_probability = (\<lambda>g bt sel p. 6 / 10),
                fmt = (\<lambda>v. ''0''), fmt1 = (\<lambda>v. ''14.5'')\<rparr>"

definition leg_fight_home :: leg where
  "leg_fight_home = \<lparr>game = fight, bet_type = Some ''moneyline'', selection = None,
     odds = - 110, implied_probability = 11 / 21, true_probability = Some (6 / 10),
     expected_value = 8 / 55, confidence_score = 65 / 100,
     reasoning = ''Home team moneyline with 14.5% EV'', market_keys = MainKeys\<rparr>"

definition leg_fight_jones :: leg where
  "leg_fight_jones = \<lparr>game = fight, bet_type = Some ''fighter_moneyline'',
     selection = Some ''Jon Jones'', odds = - 110, implied_probability = 11 / 21,
     true_probability = Some (6 / 10), expected_value = 8 / 55,
     confidence_score = 6 / 10,
     reasoning = ''Jon Jones moneyline with 14.5% EV'', market_keys = MainKeys\<rparr>"

text \<open>
  The dict \<open>_calculate_parlay_metrics\<close> returns for the two legs of the fight and a
  leg of game 1.
\<close>

definition parlay_fight :: diverse_parlay where
  "parlay_fight =
     \<lparr>picks = [leg_fight_home, leg_fight_jones, leg_home1], d_num_legs = 3,
      sport = ''UFC'', d_combined_odds = 793000 / 1331, decimal_odds = 9261 / 1331,
      combined_confidence = 507 / 2000,
      potential_payouts = (92610 / 1331, 231525 / 1331, 463050 / 1331, 926100 / 1331),
      bet_types = {Some ''fighter_moneyline'', Some ''moneyline''}, num_games = 2,
      avg_expected_value = 5 / 44, quality_score = 7943 / 125\<rparr>"


section \<open>Theorems\<close>

subsection \<open>Odds conversion\<close>

text \<open>
  C5. For every nonzero American odds value, \<open>american_to_decimal\<close> returns
  \<open>odds / 100 + 1\<close> when the odds are positive and \<open>100 / |odds| + 1\<close> when they are
  negative; at odds \<open>0\<close> it does not return a value but fails, with Python's
  \<open>ZeroDivisionError\<close>.
\<close>

theorem american_to_decimal_cases:
  "(0 < x \<longrightarrow> american_to_decimal x = Inr (x / 100 + 1)) \<and>
   (x < 0 \<longrightarrow> american_to_decimal x = Inr (100 / \<bar>x\<bar> + 1)) \<and>
   american_to_decimal 0 = Inl ZeroDivisionError"
  by (simp add: american_to_decimal_def py_truediv_def)

theorem american_to_decimal_cases_witness:
  "(0::real) < 150 \<and> american_to_decimal 150 = Inr (5 / 2) \<and>
   (-200::real) < 0 \<and> american_to_decimal (-200) = Inr (3 / 2) \<and>
   american_to_decimal 0 = Inl ZeroDivisionError"
  using american_to_decimal_cases [of 150] american_to_decimal_cases [of "-200"]
  by simp

subsection \<open>Expected value of a fair bet\<close>

text \<open>
  C8. For every leg with nonzero odds whose true probability equals the probability
  implied by those odds, \<open>calculate_expected_value\<close> returns exactly 0, for positive
  and for negative American odds alike (the first argument is not used by the code).
\<close>

theorem fair_bet_zero_ev:
  "x \<noteq> 0 \<Longrightarrow>
   calculate_expected_value implied_prob (american_to_implied_prob x) x = Inr 0"
  by (auto simp: calculate_expected_value_def american_to_decimal_def py_truediv_def
      american_to_implied_prob_def field_simps)

theorem fair_bet_zero_ev_witness:
  "(-110::real) \<noteq> 0 \<and> (120::real) \<noteq> 0 \<and>
   calculate_expected_value (11 / 21) (american_to_implied_prob (-110)) (-110) = Inr 0 \<and>
   calculate_expected_value (5 / 11) (american_to_implied_prob 120) 120 = Inr 0"
  using fair_bet_zero_ev [of "-110" "11 / 21"] fair_bet_zero_ev [of 120 "5 / 11"]
  by simp

subsection \<open>The pairs of a candidate\<close>

lemma twice_length_leg_pairs: "2 * length (leg_pairs xs) = length xs * (length xs - 1)"
proof (induction xs)
  case Nil
  then show ?case by simp
next
  case (Cons x xs)
  then show ?case by (cases xs) (simp_all add: algebra_simps)
qed

lemma length_leg_pairs: "length (leg_pairs xs) = length xs choose 2"
proof -
  have "length (leg_pairs xs) = (length xs * (length xs - 1)) div 2"
    using twice_length_leg_pairs [of xs] by simp
  then show ?thesis by (simp add: choose_two)
qed

lemma real_pair_count:
  "real_of_int (int (length xs) * (int (length xs) - 1)) / 2 = real (length (leg_pairs xs))"
proof -
  have "int (length xs) * (int (length xs) - 1) = int (length xs * (length xs - 1))"
    by (cases "length xs") (simp_all add: algebra_simps)
  also have "\<dots> = int (2 * length (leg_pairs xs))"
    by (simp only: twice_length_leg_pairs)
  finally show ?thesis by simp
qed

lemma leg_pairs_nonempty: "2 \<le> length xs \<Longrightarrow> leg_pairs xs \<noteq> []"
  by (cases xs; cases "tl xs") auto

text \<open>The list \<open>leg_pairs\<close> holds exactly the pairs the nested index loops visit.\<close>

lemma set_leg_pairs:
  "set (leg_pairs xs) = {(xs ! i, xs ! j) | i j. i < j \<and> j < length xs}"
proof (induction xs)
  case Nil
  then show ?case by simp
next
  case (Cons x xs)
  have "{((x # xs) ! i, (x # xs) ! j) | i j. i < j \<and> j < length (x # xs)}
        = Pair x ` set xs \<union> {(xs ! i, xs ! j) | i j. i < j \<and> j < length xs}"
    (is "?L = ?R")
  proof (intro set_eqI iffI)
    fix p assume "p \<in> ?L"
    then obtain i j where p: "p = ((x # xs) ! i, (x # xs) ! j)"
      and ij: "i < j" "j < Suc (length xs)"
      by auto
    show "p \<in> ?R"
    proof (cases i)
      case 0
      with ij p show ?thesis by (cases j) auto
    next
      case (Suc i')
      with ij obtain j' where "j = Suc j'" by (cases j) auto
      with Suc ij p show ?thesis by auto
    qed
  next
    fix p assume "p \<in> ?R"
    then show "p \<in> ?L"
    proof
      assume "p \<in> Pair x ` set xs"
      then obtain k where "k < length xs" "p = (x, xs ! k)"
        by (auto simp: in_set_conv_nth)
      then have "p = ((x # xs) ! 0, (x # xs) ! Suc k) \<and> 0 < Suc k \<and>
                 Suc k < length (x # xs)"
        by simp
      then show ?thesis by blast
    next
      assume "p \<in> {(xs ! i, xs ! j) | i j. i < j \<and> j < length xs}"
      then obtain i j where "p = (xs ! i, xs ! j)" "i < j" "j < length xs" by auto
      then have "p = ((x # xs) ! Suc i, (x # xs) ! Suc j) \<and> Suc i < Suc j \<and>
                 Suc j < length (x # xs)"
        by simp
      then show ?thesis by blast
    qed
  qed
  with Cons show ?case by simp
qed

subsection \<open>Correlation penalty\<close>

lemma corr_bounds:
  "1 / 10 \<le> calculate_correlation_penalty a b \<and> calculate_correlation_penalty a b \<le> 1 / 2"
  by (simp add: calculate_correlation_penalty_def)

lemma sum_list_bounds:
  fixes f :: "'a \<Rightarrow> real"
  assumes "\<And>x. x \<in> set xs \<Longrightarrow> lo \<le> f x \<and> f x \<le> hi"
  shows "lo * real (length xs) \<le> sum_list (map f xs) \<and>
         sum_list (map f xs) \<le> hi * real (length xs)"
  using assms by (induction xs) (auto simp: algebra_simps intro: add_mono)

lemma pair_total_bounds:
  "real (length (leg_pairs ls)) / 10 \<le> pair_total ls \<and>
   pair_total ls \<le> real (length (leg_pairs ls)) / 2"
  using sum_list_bounds [of "leg_pairs ls" "1 / 10"
      "\<lambda>(a, b). calculate_correlation_penalty a b" "1 / 2"] corr_bounds
  by (auto simp: pair_total_def)

lemma penalty_value:
  assumes "2 \<le> length ls"
  shows "parlay_correlation_penalty ls =
           Inr (pair_total ls / real (length ls choose 2))"
    and "1 / 10 \<le> pair_total ls / real (length ls choose 2)"
    and "pair_total ls / real (length ls choose 2) \<le> 1 / 2"
proof -
  let ?m = "real (length (leg_pairs ls))"
  have pos: "0 < ?m" using leg_pairs_nonempty [OF assms] by simp
  have b: "?m / 10 \<le> pair_total ls" "pair_total ls \<le> ?m / 2"
    using pair_total_bounds by auto
  show lo: "1 / 10 \<le> pair_total ls / real (length ls choose 2)"
    using b pos by (simp add: length_leg_pairs [symmetric] field_simps)
  show hi: "pair_total ls / real (length ls choose 2) \<le> 1 / 2"
    using b pos by (simp add: length_leg_pairs [symmetric] field_simps)
  have le1: "pair_total ls / real (length ls choose 2) \<le> 1"
    using hi by linarith
  have "parlay_correlation_penalty ls = Inr (min (pair_total ls / ?m) 1)"
    unfolding parlay_correlation_penalty_def Let_def py_truediv_def real_pair_count
      pair_total_def
    using pos by simp
  also have "min (pair_total ls / ?m) 1 = pair_total ls / real (length ls choose 2)"
    using le1 by (simp only: length_leg_pairs min_absorb1)
  finally show "parlay_correlation_penalty ls =
           Inr (pair_total ls / real (length ls choose 2))" .
qed

text \<open>
  C1, as the specification states it, fails on the code: the penalty that
  \<open>build_parlay_score\<close> computes uses the coefficients of
  \<open>calculate_correlation_penalty\<close>, not the specification's table. Two moneyline ls
  of one game (same game, same bet type) get the penalty 0.5, where the table gives 0.9.
\<close>

theorem correlation_penalty_counterexample:
  "game_id (game leg_home1) = game_id (game leg_away1) \<and>
   bet_type leg_home1 = bet_type leg_away1 \<and>
   parlay_correlation_penalty [leg_home1, leg_away1] = Inr (1 / 2) \<and>
   spec_correlation_penalty [leg_home1, leg_away1] = 9 / 10"
  by (simp add: parlay_correlation_penalty_def py_truediv_def
      calculate_correlation_penalty_def spec_correlation_penalty_def
      spec_correlation_coefficient_def leg_home1_def leg_away1_def game1_def choose_two)

text \<open>
  C1, amended. For every candidate of at least two ls, the correlation penalty of
  \<open>build_parlay_score\<close> is the sum, over all \<open>C(k,2)\<close> pairs of ls \<open>i < j\<close>, of the
  coefficient 0.5 for two ls of the same game, 0.3 for ls of different games with
  the same selection and 0.1 otherwise, divided by \<open>C(k,2)\<close>; the cap at 1.0 never
  applies, the value lying in \<open>[0.1, 0.5]\<close>.
\<close>

theorem correlation_penalty_pairwise:
  "2 \<le> length ls \<Longrightarrow>
   (\<exists>q. parlay_correlation_penalty ls = Inr q \<and>
        q = (\<Sum>(a, b) \<leftarrow> leg_pairs ls.
               if game_id (game a) = game_id (game b) then 5 / 10
               else if selection a = selection b then 3 / 10 else 1 / 10)
            / real (length ls choose 2) \<and>
        1 / 10 \<le> q \<and> q \<le> 1 / 2) \<and>
   length (leg_pairs ls) = length ls choose 2 \<and>
   set (leg_pairs ls) = {(ls ! i, ls ! j) | i j. i < j \<and> j < length ls}"
proof -
  assume k: "2 \<le> length ls"
  have "pair_total ls = (\<Sum>(a, b) \<leftarrow> leg_pairs ls.
               if game_id (game a) = game_id (game b) then 5 / 10
               else if selection a = selection b then 3 / 10 else 1 / 10)"
    unfolding pair_total_def calculate_correlation_penalty_def ..
  with penalty_value [OF k] length_leg_pairs [of ls] set_leg_pairs [of ls]
  show ?thesis by simp
qed

theorem correlation_penalty_pairwise_witness:
  "2 \<le> length [leg_home1, leg_spread1, leg_home2] \<and>
   parlay_correlation_penalty [leg_home1, leg_spread1, leg_home2] = Inr (7 / 30) \<and>
   length (leg_pairs [leg_home1, leg_spread1, leg_home2]) = 3"
  using correlation_penalty_pairwise [of "[leg_home1, leg_spread1, leg_home2]"]
  by (simp add: leg_home1_def leg_spread1_def leg_home2_def game1_def game2_def
      numeral_3_eq_3)

subsection \<open>Composite score\<close>

text \<open>
  C2, as the specification states it, fails on the code in its last part: the
  diversification term does not depend on the games at all. Two ls of two games and
  two ls of one game get the same term \<open>2 / 15\<close>, while their ratios of distinct games
  to ls are 1 and 1/2.
\<close>

theorem diversification_counterexample:
  "diversification default_config [leg_home1, leg_home2] = Inr (2 / 15) \<and>
   diversification default_config [leg_home1, leg_spread1] = Inr (2 / 15) \<and>
   real (distinct_games [leg_home1, leg_home2]) / real (length [leg_home1, leg_home2]) = 1 \<and>
   real (distinct_games [leg_home1, leg_spread1]) / real (length [leg_home1, leg_spread1])
     = 1 / 2"
  by (simp add: diversification_def default_config_def py_truediv_def distinct_games_def
      leg_home1_def leg_home2_def leg_spread1_def game1_def game2_def)

text \<open>
  C2, amended. For every candidate of at least \<open>MIN_PARLAY_LEGS\<close> and at least two
  ls, with \<open>MAX_PARLAY_LEGS\<close> not zero, the score is
  \<open>w_value * avg_ev + w_confidence * avg_confidence - w_correlation * correlation_penalty
  + w_diversification * diversification\<close>, where the diversification term is
  \<open>min (number of ls / MAX_PARLAY_LEGS) 1\<close>; the default weights are 0.4, 0.3, 0.2
  and 0.1.
\<close>

theorem build_parlay_score_formula:
  "MIN_PARLAY_LEGS cfg \<le> int (length ls) \<Longrightarrow> 2 \<le> length ls \<Longrightarrow>
   MAX_PARLAY_LEGS cfg \<noteq> 0 \<Longrightarrow>
   (\<exists>pen. parlay_correlation_penalty ls = Inr pen \<and>
      build_parlay_score cfg w ls =
        Inr (w_value w * ((\<Sum>l \<leftarrow> ls. expected_value l) / real (length ls))
             + w_confidence w * ((\<Sum>l \<leftarrow> ls. confidence_score l) / real (length ls))
             - w_correlation w * pen
             + w_diversification w
               * min (real (length ls) / real_of_int (MAX_PARLAY_LEGS cfg)) 1)) \<and>
   w_value default_weights = 4 / 10 \<and> w_confidence default_weights = 3 / 10 \<and>
   w_correlation default_weights = 2 / 10 \<and> w_diversification default_weights = 1 / 10"
proof -
  assume m: "MIN_PARLAY_LEGS cfg \<le> int (length ls)" and k: "2 \<le> length ls"
    and mx: "MAX_PARLAY_LEGS cfg \<noteq> 0"
  from k have ne: "real (length ls) \<noteq> 0" by auto
  from penalty_value(1) [OF k] m ne mx
  have "build_parlay_score cfg w ls =
        Inr (w_value w * ((\<Sum>l \<leftarrow> ls. expected_value l) / real (length ls))
             + w_confidence w * ((\<Sum>l \<leftarrow> ls. confidence_score l) / real (length ls))
             - w_correlation w * (pair_total ls / real (length ls choose 2))
             + w_diversification w
               * min (real (length ls) / real_of_int (MAX_PARLAY_LEGS cfg)) 1)"
    by (simp add: build_parlay_score_def Let_def py_truediv_def diversification_def)
  with penalty_value(1) [OF k] show ?thesis
    by (simp add: default_weights_def)
qed

theorem build_parlay_score_formula_witness:
  "MIN_PARLAY_LEGS default_config \<le> int (length [leg_home1, leg_home2]) \<and>
   2 \<le> length [leg_home1, leg_home2] \<and> MAX_PARLAY_LEGS default_config \<noteq> 0 \<and>
   build_parlay_score default_config default_weights [leg_home1, leg_home2] = Inr (259 / 1200)"
  using build_parlay_score_formula [of default_config "[leg_home1, leg_home2]" default_weights]
  by (auto simp: default_config_def default_weights_def leg_home1_def leg_home2_def
      game1_def game2_def parlay_correlation_penalty_def py_truediv_def
      calculate_correlation_penalty_def)


subsection \<open>Final selection pass\<close>

text \<open>
  As long as fewer than \<open>max_parlays\<close> candidates are selected the second disjunct of
  the test holds, and the loop stops as soon as \<open>max_parlays\<close> are selected: the
  overlap never decides, and the pass returns the first \<open>max_parlays\<close> candidates in
  the order of their adjusted scores.
\<close>

lemma select_diverse_take:
  "int (length selected) < K \<Longrightarrow>
   select_diverse K selected used ps = selected @ take (nat K - length selected) ps"
proof (induction ps arbitrary: selected used)
  case Nil
  then show ?case by simp
next
  case (Cons p ps)
  show ?case
  proof (cases "int (length (selected @ [p])) \<ge> K")
    case True
    with Cons.prems have "nat K - length selected = 1" by auto
    with True Cons.prems show ?thesis by (simp add: Let_def)
  next
    case False
    then have lt: "int (length (selected @ [p])) < K" by simp
    have "nat K - length selected = Suc (nat K - length (selected @ [p]))"
      using lt by auto
    with Cons.IH [OF lt] False Cons.prems show ?thesis by (simp add: Let_def)
  qed
qed

lemma optimize_is_take:
  "1 \<le> K \<Longrightarrow> optimize_parlay_selection cands K = take (nat K) (sorted_by_adjusted cands)"
  using select_diverse_take [of "[]" K "{}" "sorted_by_adjusted cands"]
  by (auto simp: optimize_parlay_selection_def sorted_by_adjusted_def)


lemma sorted_same_game_pool:
  "map legs (sorted_by_adjusted same_game_pool) = map legs same_game_pool"
  by (simp add: sorted_by_adjusted_def same_game_pool_def score_parlay_def candidate_of_def
      avg_corr_def calculate_dict_correlation_def same_game_def Let_def
      leg_home1_def leg_away1_def leg_spread1_def leg_home2_def leg_spread2_def
      leg_home3_def leg_home4_def leg_home5_def
      game1_def game2_def game3_def game4_def game5_def)

text \<open>
  C3. The claim holds of the comments of \<open>optimize_parlay_selection\<close> (select diverse
  parlays, avoid too much overlap) and fails on its code. With five top-scoring
  three-leg combinations over the games 1 and 2, a lower-scoring combination over the
  games 3, 4 and 5, and four slots, the pass returns the first four same-game
  combinations: the fourth duplicate is accepted, the distinct-game combination is not
  returned.
\<close>

theorem selection_pass_keeps_duplicates:
  "map legs (optimize_parlay_selection same_game_pool 4) = map legs (take 4 same_game_pool) \<and>
   map parlay_games (optimize_parlay_selection same_game_pool 4)
     = [{1, 2}, {1, 2}, {1, 2}, {1, 2}] \<and>
   [leg_home3, leg_home4, leg_home5] \<in> set (map legs same_game_pool) \<and>
   [leg_home3, leg_home4, leg_home5]
     \<notin> set (map legs (optimize_parlay_selection same_game_pool 4))"
proof -
  have t: "map legs (optimize_parlay_selection same_game_pool 4)
           = map legs (take 4 same_game_pool)"
    using sorted_same_game_pool
    by (simp add: optimize_is_take take_map [symmetric])
  have g: "map parlay_games (optimize_parlay_selection same_game_pool 4)
           = map (\<lambda>ls. set (map (\<lambda>l. game_id (game l)) ls))
               (map legs (optimize_parlay_selection same_game_pool 4))"
    by (simp add: parlay_games_def comp_def)
  have l: "map legs (take 4 same_game_pool)
           = [[leg_home1, leg_spread1, leg_home2], [leg_home1, leg_away1, leg_home2],
              [leg_away1, leg_spread1, leg_home2], [leg_home1, leg_home2, leg_spread2]]"
    by (simp add: same_game_pool_def candidate_of_def)
  have d: "leg_home3 \<noteq> leg_home1" "leg_home3 \<noteq> leg_away1"
    by (simp_all add: leg_home3_def leg_home1_def leg_away1_def)
  show ?thesis
    unfolding g unfolding t l
    using d
    by (simp add: same_game_pool_def candidate_of_def leg_home1_def leg_away1_def
        leg_spread1_def leg_home2_def leg_spread2_def game1_def game2_def insert_commute)
qed

subsection \<open>Enumeration and zero odds\<close>

lemma american_to_decimal_gt1:
  "x \<noteq> 0 \<Longrightarrow> \<exists>d. american_to_decimal x = Inr d \<and> 1 < d"
  by (auto simp: american_to_decimal_def py_truediv_def)

lemma american_to_decimal_error: "american_to_decimal x = Inl e \<Longrightarrow> e = ZeroDivisionError \<and> x = 0"
  by (auto simp: american_to_decimal_def py_truediv_def split: if_splits)

lemma combine_odds_ok:
  "\<forall>l \<in> set ls. odds l \<noteq> 0 \<Longrightarrow> 1 \<le> acc \<Longrightarrow>
   \<exists>r. combine_odds acc ls = Inr r \<and> acc \<le> r \<and> (ls \<noteq> [] \<longrightarrow> acc < r)"
proof (induction ls arbitrary: acc)
  case Nil
  then show ?case by simp
next
  case (Cons l ls)
  from Cons.prems obtain d where d: "american_to_decimal (odds l) = Inr d" "1 < d"
    using american_to_decimal_gt1 [of "odds l"] by auto
  with Cons.prems have lt: "acc < acc * d" by simp
  then have "1 \<le> acc * d" using Cons.prems by linarith
  with Cons.IH [of "acc * d"] Cons.prems obtain r where
    "combine_odds (acc * d) ls = Inr r" "acc * d \<le> r" by auto
  with d lt show ?case by (auto simp: bind_err_def)
qed

lemma combine_odds_zero:
  "z \<in> set ls \<Longrightarrow> odds z = 0 \<Longrightarrow> combine_odds acc ls = Inl ZeroDivisionError"
proof (induction ls arbitrary: acc)
  case Nil
  then show ?case by simp
next
  case (Cons l ls)
  show ?case
  proof (cases "odds l = 0")
    case True
    then show ?thesis by (simp add: bind_err_def american_to_decimal_def py_truediv_def)
  next
    case False
    with Cons.prems have "z \<in> set ls" by auto
    from Cons.IH [OF this Cons.prems(2)] american_to_decimal_gt1 [OF False]
    show ?thesis by (auto simp: bind_err_def)
  qed
qed

lemma map_err_Inl:
  "\<forall>x \<in> set xs. \<forall>e. f x = Inl e \<longrightarrow> e = c \<Longrightarrow> \<exists>x \<in> set xs. f x = Inl c \<Longrightarrow>
   map_err f xs = Inl c"
proof (induction xs)
  case Nil
  then show ?case by simp
next
  case (Cons x xs)
  show ?case
  proof (cases "f x")
    case (Inl e)
    with Cons.prems(1) have "e = c" by simp
    with Inl show ?thesis by (simp add: bind_err_def)
  next
    case (Inr y)
    with Cons.prems have "\<exists>x \<in> set xs. f x = Inl c" by auto
    with Cons.IH Cons.prems(1) have "map_err f xs = Inl c" by simp
    with Inr show ?thesis by (simp add: bind_err_def)
  qed
qed

lemma map_err_Inr:
  "\<forall>x \<in> set xs. \<exists>y. f x = Inr y \<Longrightarrow>
   \<exists>ys. map_err f xs = Inr ys \<and> length ys = length xs"
proof (induction xs)
  case Nil
  then show ?case by simp
next
  case (Cons x xs)
  then obtain y ys where "f x = Inr y" "map_err f xs = Inr ys" "length ys = length xs"
    by auto
  then show ?case by (simp add: bind_err_def)
qed

lemma length_combinations: "c \<in> set (combinations xs k) \<Longrightarrow> length c = k"
  by (induction xs k arbitrary: c rule: combinations.induct) auto

lemma set_combinations: "c \<in> set (combinations xs k) \<Longrightarrow> set c \<subseteq> set xs"
  by (induction xs k arbitrary: c rule: combinations.induct) fastforce+

lemma count_combinations: "length (combinations xs k) = length xs choose k"
  by (induction xs k rule: combinations.induct) auto

lemma combinations_contains:
  "z \<in> set xs \<Longrightarrow> k \<le> length xs \<Longrightarrow> 0 < k \<Longrightarrow> \<exists>c \<in> set (combinations xs k). z \<in> set c"
proof (induction xs k rule: combinations.induct)
  case (1 xs)
  then show ?case by simp
next
  case (2 k)
  then show ?case by simp
next
  case (3 x xs k)
  show ?case
  proof (cases "z = x")
    case True
    from "3.prems" have "k \<le> length xs" by simp
    then have "combinations xs k \<noteq> []"
      using count_combinations [of xs k] by (auto simp: zero_less_binomial_iff dest!: arg_cong [where f = length])
    then obtain c where "c \<in> set (combinations xs k)" by (cases "combinations xs k") auto
    then have "x # c \<in> set (combinations (x # xs) (Suc k))" by simp
    with True show ?thesis by (intro bexI [of _ "x # c"]) simp_all
  next
    case False
    with "3.prems" have zin: "z \<in> set xs" by auto
    show ?thesis
    proof (cases "Suc k \<le> length xs")
      case True
      with "3.IH"(2) zin show ?thesis by auto
    next
      case False
      with "3.prems" have kl: "k = length xs" by simp
      with zin have "0 < k" by (cases xs) auto
      with "3.IH"(1) [OF zin] kl obtain c where "c \<in> set (combinations xs k)" "z \<in> set c"
        by auto
      then have "x # c \<in> set (combinations (x # xs) (Suc k))" "z \<in> set (x # c)" by simp_all
      then show ?thesis by blast
    qed
  qed
qed

lemma combined_american_of_error: "combined_american_of x = Inl e \<Longrightarrow> e = ZeroDivisionError"
  by (auto simp: combined_american_of_def py_truediv_def split: if_splits)

lemma combine_odds_error: "combine_odds acc c = Inl e \<Longrightarrow> e = ZeroDivisionError"
  by (induction c arbitrary: acc)
     (auto simp: bind_err_def split: sum.splits dest: american_to_decimal_error)

lemma round_robin_of_error: "round_robin_of g c = Inl e \<Longrightarrow> e = ZeroDivisionError"
  by (auto simp: round_robin_of_def bind_err_def Let_def split: sum.splits
      dest: combine_odds_error combined_american_of_error)

lemma round_robin_zero_odds:
  assumes "z \<in> set pool" "odds z = 0" "1 \<le> k" "k \<le> int (length pool)"
  shows "round_robin_generator pool k = Inl ZeroDivisionError"
proof -
  from assms have "nat k \<le> length pool" "0 < nat k" by linarith+
  with assms(1) obtain c where c: "c \<in> set (combinations pool (nat k))" "z \<in> set c"
    using combinations_contains [of z pool "nat k"] by blast
  have "round_robin_of k c = Inl ZeroDivisionError"
    using combine_odds_zero [OF c(2) assms(2)]
    by (simp add: round_robin_of_def bind_err_def Let_def)
  with c(1) have "map_err (round_robin_of k) (combinations pool (nat k)) = Inl ZeroDivisionError"
    by (intro map_err_Inl) (auto dest: round_robin_of_error)
  with assms show ?thesis
    by (simp add: round_robin_generator_def py_combinations_def bind_err_def)
qed

lemma round_robin_nonzero_odds:
  assumes "\<forall>l \<in> set pool. odds l \<noteq> 0" "1 \<le> k"
  shows "\<exists>rs. round_robin_generator pool k = Inr rs \<and>
              length rs = (length pool choose nat k)"
proof (cases "int (length pool) < k")
  case True
  then show ?thesis by (simp add: round_robin_generator_def)
next
  case False
  have "\<exists>r. round_robin_of k c = Inr r" if "c \<in> set (combinations pool (nat k))" for c
  proof -
    from that have "set c \<subseteq> set pool" "length c = nat k"
      by (auto dest: set_combinations length_combinations)
    with assms have "\<forall>l \<in> set c. odds l \<noteq> 0" "c \<noteq> []" by auto
    with combine_odds_ok [of c 1] obtain r where "combine_odds 1 c = Inr r" "1 < r" by auto
    then show ?thesis
      by (simp add: round_robin_of_def bind_err_def Let_def combined_american_of_def
          py_truediv_def)
  qed
  with map_err_Inr [of "combinations pool (nat k)" "round_robin_of k"] False assms
  show ?thesis
    by (auto simp: round_robin_generator_def py_combinations_def bind_err_def
        count_combinations)
qed


text \<open>
  The sibling path \<open>_calculate_parlay_metrics\<close> tests for odds of 0 and drops the
  combination.
\<close>

lemma metrics_loop_zero_odds:
  "z \<in> set ls \<Longrightarrow> odds z = 0 \<Longrightarrow> metrics_loop acc ls = Inr None"
proof (induction ls arbitrary: acc)
  case Nil
  then show ?case by simp
next
  case (Cons l ls)
  obtain co cc ev bts where acc: "acc = (co, cc, ev, bts)" by (cases acc) auto
  show ?case
  proof (cases "odds l = 0")
    case True
    then show ?thesis by (simp add: acc)
  next
    case False
    with Cons.prems have "z \<in> set ls" by auto
    from Cons.IH [OF this Cons.prems(2)] american_to_decimal_gt1 [OF False] False
    show ?thesis by (auto simp: acc bind_err_def)
  qed
qed

lemma calculate_parlay_metrics_zero_odds:
  "z \<in> set ls \<Longrightarrow> odds z = 0 \<Longrightarrow> calculate_parlay_metrics ls sp = Inr None"
  by (simp add: calculate_parlay_metrics_def Let_def metrics_loop_zero_odds bind_err_def)


subsection \<open>Deduplication\<close>














lemmas yes_defs = leg_yes1a_def leg_yes1b_def leg_yes2a_def leg_yes2b_def game1_def game2_def

lemma metrics_parlay_x:
  "calculate_parlay_metrics [leg_yes1a, leg_yes1b, leg_yes2a] ''NBA'' = Inr (Some parlay_x)"
  by (simp add: calculate_parlay_metrics_def parlay_x_def yes_parlay_def yes_defs bind_err_def
      american_to_decimal_def combined_american_of_def Let_def)

lemma metrics_parlay_y:
  "calculate_parlay_metrics [leg_yes1a, leg_yes2a, leg_yes2b] ''NBA'' = Inr (Some parlay_y)"
  by (simp add: calculate_parlay_metrics_def parlay_y_def yes_parlay_def yes_defs bind_err_def
      american_to_decimal_def combined_american_of_def Let_def)







text \<open>
  A fight: \<open>analyze_game\<close> builds the moneyline leg of the home side with the
  selection \<open>game.home_team\<close>, which is \<open>None\<close>, and the fighter's leg with the
  fighter's name; a candidate with both makes the sort of the pairs raise.
\<close>

lemma analyze_fight:
  "analyze_game default_config fight_env fight [] = Inr [leg_fight_home, leg_fight_jones]"
  by (simp add: analyze_game_def main_market_legs_def analyze_props_def guarded_def
      moneyline_leg_def truthy_str_def str_of_def calculate_confidence_score_def
      calculate_expected_value_def american_to_decimal_def american_to_implied_prob_def
      py_truediv_def bind_err_def Let_def default_config_def fight_env_def fight_def
      leg_fight_home_def leg_fight_jones_def)

lemma metrics_parlay_fight:
  "calculate_parlay_metrics [leg_fight_home, leg_fight_jones, leg_home1] ''UFC''
     = Inr (Some parlay_fight)"
  by (auto simp: calculate_parlay_metrics_def parlay_fight_def leg_fight_home_def
      leg_fight_jones_def leg_home1_def fight_def game1_def bind_err_def
      american_to_decimal_def py_truediv_def combined_american_of_def Let_def
      insert_commute)





subsection \<open>Expected value of prop and team-market legs\<close>

lemma ev_total: "x \<noteq> 0 \<Longrightarrow> \<exists>ev. calculate_expected_value ip tp x = Inr ev"
  by (auto simp: calculate_expected_value_def american_to_decimal_def py_truediv_def)

lemma market_leg_ok:
  assumes "x \<noteq> 0"
  shows "\<exists>ls. market_leg cfg e g prop bt cs es sel keys why x = Inr ls \<and>
              (\<forall>l \<in> set ls. leg_ok l \<and> odds l \<noteq> 0)"
proof -
  from ev_total [OF assms] obtain ev where
    "calculate_expected_value (american_to_implied_prob x)
       (estimate_true_probability e g bt (Some es) (Some prop)) x = Inr ev" by blast
  with assms show ?thesis
    by (auto simp: market_leg_def Let_def bind_err_def leg_ok_def)
qed

lemma guarded_market_leg_ok:
  "\<exists>ls. guarded column c (market_leg cfg e g prop bt cs es sel keys why) = Inr ls \<and>
        (\<forall>l \<in> set ls. leg_ok l \<and> odds l \<noteq> 0)"
proof (cases column)
  case None
  then show ?thesis by (simp add: guarded_def)
next
  case (Some x)
  show ?thesis
  proof (cases "x \<noteq> 0 \<and> c")
    case True
    with Some market_leg_ok [of x cfg e g "prop" bt cs es sel keys why] show ?thesis
      by (simp add: guarded_def)
  next
    case False
    with Some show ?thesis by (auto simp: guarded_def)
  qed
qed

lemma three_blocks:
  assumes "\<exists>ls. a = Inr ls \<and> (\<forall>l \<in> set ls. P l)"
    "\<exists>ls. b = Inr ls \<and> (\<forall>l \<in> set ls. P l)"
    "\<exists>ls. c = Inr ls \<and> (\<forall>l \<in> set ls. P l)"
  shows "\<exists>ls. bind_err a (\<lambda>x. bind_err b (\<lambda>y. bind_err c (\<lambda>z. Inr (x @ y @ z)))) = Inr ls \<and>
              (\<forall>l \<in> set ls. P l)"
  using assms by (auto simp: bind_err_def)

lemma player_prop_legs_ok:
  "\<exists>ls. player_prop_legs cfg e g prop = Inr ls \<and> (\<forall>l \<in> set ls. leg_ok l \<and> odds l \<noteq> 0)"
  unfolding player_prop_legs_def Let_def
  by (rule three_blocks) (rule guarded_market_leg_ok)+

lemma team_market_legs_ok:
  "\<exists>ls. team_market_legs cfg e g m = Inr ls \<and> (\<forall>l \<in> set ls. leg_ok l \<and> odds l \<noteq> 0)"
  unfolding team_market_legs_def Let_def
  by (rule three_blocks) (rule guarded_market_leg_ok)+

lemma map_err_all:
  assumes "\<And>x. \<exists>ys. f x = Inr ys \<and> (\<forall>y \<in> set ys. P y)"
  shows "\<exists>yss. map_err f xs = Inr yss \<and> (\<forall>y \<in> set (concat yss). P y)"
proof (induction xs)
  case Nil
  then show ?case by simp
next
  case (Cons x xs)
  from assms [of x] obtain ys where "f x = Inr ys" "\<forall>y \<in> set ys. P y" by blast
  with Cons show ?case by (auto simp: bind_err_def)
qed

lemma analyze_props_ok:
  "\<exists>ls. analyze_props cfg e g props = Inr ls \<and> (\<forall>l \<in> set ls. leg_ok l \<and> odds l \<noteq> 0)"
proof -
  let ?pp = "filter (\<lambda>p. \<not> prefix ''TEAM_'' (player_name p)) props"
  let ?tm = "filter (\<lambda>p. prefix ''TEAM_'' (player_name p)) props"
  obtain a where a: "map_err (player_prop_legs cfg e g) ?pp = Inr a"
    "\<forall>l \<in> set (concat a). leg_ok l \<and> odds l \<noteq> 0"
    using map_err_all [of "player_prop_legs cfg e g" "\<lambda>l. leg_ok l \<and> odds l \<noteq> 0" ?pp]
      player_prop_legs_ok by blast
  obtain b where b: "map_err (team_market_legs cfg e g) ?tm = Inr b"
    "\<forall>l \<in> set (concat b). leg_ok l \<and> odds l \<noteq> 0"
    using map_err_all [of "team_market_legs cfg e g" "\<lambda>l. leg_ok l \<and> odds l \<noteq> 0" ?tm]
      team_market_legs_ok by blast
  from a b show ?thesis
    by (auto simp: analyze_props_def bind_err_def Let_def)
qed

text \<open>
  C10. \<open>analyze_game\<close> never raises on the props and team markets of a game, and every
  leg it returns for them has an expected value of at least \<open>0.01\<close>: the value
  computed from the leg's own odds and probabilities exceeds \<open>-0.02\<close> (a candidate at
  or below \<open>-0.02\<close> gives no leg), and the reported value is the computed one raised to
  \<open>0.01\<close> when it is lower, so it can exceed the computed one.
\<close>

theorem prop_legs_expected_value:
  "(\<exists>ls. analyze_props cfg e g props = Inr ls \<and>
      (\<forall>l \<in> set ls. 1 / 100 \<le> expected_value l \<and>
         (\<exists>tp ev. true_probability l = Some tp \<and>
            calculate_expected_value (implied_probability l) tp (odds l) = Inr ev \<and>
            - (2 / 100) < ev \<and> expected_value l = max ev (1 / 100)))) \<and>
   (x \<noteq> 0 \<longrightarrow>
      (\<exists>ev. calculate_expected_value (american_to_implied_prob x)
               (estimate_true_probability e g bt (Some es) (Some p)) x = Inr ev \<and>
         (ev \<le> - (2 / 100) \<longrightarrow>
            market_leg cfg e g p bt cs es sel keys why x = Inr []) \<and>
         (- (2 / 100) < ev \<and> ev < 1 / 100 \<and>
          MIN_CONFIDENCE cfg * (9 / 10) \<le> calculate_confidence_score g bt (Some cs) \<longrightarrow>
            map_sum id (map expected_value)
              (market_leg cfg e g p bt cs es sel keys why x) = Inr [1 / 100])))"
proof
  from analyze_props_ok [of cfg e g props]
  obtain ls where ls: "analyze_props cfg e g props = Inr ls" "\<forall>l \<in> set ls. leg_ok l"
    by blast
  have "1 / 100 \<le> expected_value l \<and>
         (\<exists>tp ev. true_probability l = Some tp \<and>
            calculate_expected_value (implied_probability l) tp (odds l) = Inr ev \<and>
            - (2 / 100) < ev \<and> expected_value l = max ev (1 / 100))"
    if "l \<in> set ls" for l
  proof -
    from that ls(2) have "leg_ok l" by blast
    then show ?thesis unfolding leg_ok_def by fastforce
  qed
  with ls(1) show "\<exists>ls. analyze_props cfg e g props = Inr ls \<and>
      (\<forall>l \<in> set ls. 1 / 100 \<le> expected_value l \<and>
         (\<exists>tp ev. true_probability l = Some tp \<and>
            calculate_expected_value (implied_probability l) tp (odds l) = Inr ev \<and>
            - (2 / 100) < ev \<and> expected_value l = max ev (1 / 100)))"
    by blast
next
  show "x \<noteq> 0 \<longrightarrow>
      (\<exists>ev. calculate_expected_value (american_to_implied_prob x)
               (estimate_true_probability e g bt (Some es) (Some p)) x = Inr ev \<and>
         (ev \<le> - (2 / 100) \<longrightarrow>
            market_leg cfg e g p bt cs es sel keys why x = Inr []) \<and>
         (- (2 / 100) < ev \<and> ev < 1 / 100 \<and>
          MIN_CONFIDENCE cfg * (9 / 10) \<le> calculate_confidence_score g bt (Some cs) \<longrightarrow>
            map_sum id (map expected_value)
              (market_leg cfg e g p bt cs es sel keys why x) = Inr [1 / 100]))"
  proof
    assume "x \<noteq> 0"
    from ev_total [OF this] obtain ev where
      "calculate_expected_value (american_to_implied_prob x)
         (estimate_true_probability e g bt (Some es) (Some p)) x = Inr ev" by blast
    then show "\<exists>ev. calculate_expected_value (american_to_implied_prob x)
               (estimate_true_probability e g bt (Some es) (Some p)) x = Inr ev \<and>
         (ev \<le> - (2 / 100) \<longrightarrow>
            market_leg cfg e g p bt cs es sel keys why x = Inr []) \<and>
         (- (2 / 100) < ev \<and> ev < 1 / 100 \<and>
          MIN_CONFIDENCE cfg * (9 / 10) \<le> calculate_confidence_score g bt (Some cs) \<longrightarrow>
            map_sum id (map expected_value)
              (market_leg cfg e g p bt cs es sel keys why x) = Inr [1 / 100])"
      by (auto simp: market_leg_def Let_def bind_err_def)
  qed
qed

lemma analyze_points_prop:
  "analyze_props default_config example_env game1 [points_prop] =
     Inr [\<lparr>game = game1, bet_type = Some ''prop'', selection = Some ''Over 25.5'',
           odds = - 110, implied_probability = 11 / 21,
           true_probability = Some (11 / 21), expected_value = 1 / 100,
           confidence_score = 62 / 100,
           reasoning = ''LeBron James player_points over 25.5 with 0.0% EV'',
           market_keys = PlayerKeys ''player_points'' (Some (51 / 2)) ''LeBron James''
                           (Some ''player_points'')\<rparr>]"
  by (simp add: analyze_props_def player_prop_legs_def guarded_def market_leg_def
      calculate_confidence_score_def calculate_expected_value_def american_to_decimal_def
      american_to_implied_prob_def py_truediv_def bind_err_def Let_def
      default_config_def example_env_def points_prop_def)

text \<open>
  At a player prop offered at \<open>-110\<close> on both sides: the over is a fair bet, its
  computed expected value 0 is reported as \<open>0.01\<close>; the under has the computed
  expected value \<open>-1/22\<close> and gives no leg.
\<close>

theorem prop_legs_expected_value_witness:
  "map_sum id (map expected_value)
     (analyze_props default_config example_env game1 [points_prop]) = Inr [1 / 100] \<and>
   calculate_expected_value (11 / 21) (11 / 21) (- 110) = Inr 0 \<and>
   (- 110 :: real) \<noteq> 0 \<and>
   calculate_expected_value (american_to_implied_prob (- 110)) (1 / 2) (- 110)
     = Inr (- (1 / 22)) \<and>
   market_leg default_config example_env game1 points_prop (Some ''prop'')
     ''LeBron James player_points under'' ''under 25.5'' ''Under 25.5''
     (PlayerKeys ''player_points'' (Some (51 / 2)) ''LeBron James'' (Some ''player_points''))
     ''LeBron James player_points under 25.5'' (- 110) = Inr []"
proof -
  have b: "calculate_expected_value (11 / 21) (11 / 21) (- 110) = Inr 0"
    by (simp add: calculate_expected_value_def american_to_decimal_def py_truediv_def)
  have c: "calculate_expected_value (american_to_implied_prob (- 110)) (1 / 2) (- 110)
             = Inr (- (1 / 22))"
    by (simp add: calculate_expected_value_def american_to_decimal_def py_truediv_def)
  have est: "estimate_true_probability example_env game1 (Some ''prop'')
               (Some ''under 25.5'') (Some points_prop) = 1 / 2"
    by (simp add: example_env_def)
  show ?thesis
    using prop_legs_expected_value [where cfg = default_config and e = example_env
        and g = game1 and props = "[points_prop]" and x = "- 110" and bt = "Some ''prop''"
        and es = "''under 25.5''" and p = points_prop
        and cs = "''LeBron James player_points under''" and sel = "''Under 25.5''"
        and keys = "PlayerKeys ''player_points'' (Some (51 / 2)) ''LeBron James''
                      (Some ''player_points'')"
        and why = "''LeBron James player_points under 25.5''"]
    by (simp add: analyze_points_prop b c est)
qed

subsection \<open>Where a zero-odds leg is excluded\<close>

text \<open>
  Every block of \<open>analyze_game\<close> that builds a leg stands under \<open>if column:\<close> on the
  odds column the leg takes its odds from, so the leg has nonzero odds, and with
  nonzero odds none of the conversions raises.
\<close>

lemma guarded_ok:
  assumes "\<And>x. x \<noteq> 0 \<Longrightarrow> \<exists>ls. block x = Inr ls \<and> (\<forall>l \<in> set ls. P l)"
  shows "\<exists>ls. guarded column c block = Inr ls \<and> (\<forall>l \<in> set ls. P l)"
proof (cases column)
  case None
  then show ?thesis by (simp add: guarded_def)
next
  case (Some x)
  show ?thesis
  proof (cases "x \<noteq> 0 \<and> c")
    case True
    with Some assms [of x] show ?thesis by (simp add: guarded_def)
  next
    case False
    with Some show ?thesis by (auto simp: guarded_def)
  qed
qed

lemma moneyline_leg_ok:
  assumes "x \<noteq> 0"
  shows "\<exists>ls. moneyline_leg cfg e g bt sel who x = Inr ls \<and> (\<forall>l \<in> set ls. odds l \<noteq> 0)"
proof -
  from ev_total [OF assms] obtain ev where
    "calculate_expected_value (american_to_implied_prob x)
       (estimate_true_probability e g bt sel None) x = Inr ev" by blast
  with assms show ?thesis
    by (auto simp: moneyline_leg_def Let_def bind_err_def)
qed

lemma fixed_leg_ok:
  "x \<noteq> 0 \<Longrightarrow>
   \<exists>ls. fixed_leg cfg g bt cs sel why x = Inr ls \<and> (\<forall>l \<in> set ls. odds l \<noteq> 0)"
  by (auto simp: fixed_leg_def Let_def)

lemma two_blocks:
  assumes "\<exists>ls. a = Inr ls \<and> (\<forall>l \<in> set ls. P l)"
    "\<exists>ls. b = Inr ls \<and> (\<forall>l \<in> set ls. P l)"
  shows "\<exists>ls. bind_err a (\<lambda>x. bind_err b (\<lambda>y. Inr (x @ y))) = Inr ls \<and>
              (\<forall>l \<in> set ls. P l)"
  using assms by (auto simp: bind_err_def)

lemma five_blocks:
  assumes "\<exists>ls. a = Inr ls \<and> (\<forall>l \<in> set ls. P l)"
    "\<exists>ls. b = Inr ls \<and> (\<forall>l \<in> set ls. P l)"
    "\<exists>ls. c = Inr ls \<and> (\<forall>l \<in> set ls. P l)"
    "\<exists>ls. d = Inr ls \<and> (\<forall>l \<in> set ls. P l)"
    "\<exists>ls. f = Inr ls \<and> (\<forall>l \<in> set ls. P l)"
  shows "\<exists>ls. bind_err a (\<lambda>x. bind_err b (\<lambda>y. bind_err c (\<lambda>z. bind_err d (\<lambda>u.
               bind_err f (\<lambda>v. Inr (x @ y @ z @ u @ v)))))) = Inr ls \<and>
              (\<forall>l \<in> set ls. P l)"
  using assms by (auto simp: bind_err_def)

lemma main_market_legs_ok:
  "\<exists>ls. main_market_legs cfg e g = Inr ls \<and> (\<forall>l \<in> set ls. odds l \<noteq> 0)"
  unfolding main_market_legs_def
proof (rule five_blocks)
  show "\<exists>ls. (if game_sport g \<in> {''UFC'', ''BOXING''} then
          bind_err
            (guarded (home_moneyline g) (truthy_str (fighter1 g))
               (moneyline_leg cfg e g (Some ''fighter_moneyline'') (fighter1 g)
                  (str_of (fighter1 g))))
            (\<lambda>first_legs.
          bind_err
            (guarded (away_moneyline g) (truthy_str (fighter2 g))
               (moneyline_leg cfg e g (Some ''fighter_moneyline'') (fighter2 g)
                  (str_of (fighter2 g))))
            (\<lambda>second_legs. Inr (first_legs @ second_legs)))
        else Inr []) = Inr ls \<and> (\<forall>l \<in> set ls. odds l \<noteq> 0)"
  proof (cases "game_sport g \<in> {''UFC'', ''BOXING''}")
    case True
    have "\<exists>ls. bind_err
            (guarded (home_moneyline g) (truthy_str (fighter1 g))
               (moneyline_leg cfg e g (Some ''fighter_moneyline'') (fighter1 g)
                  (str_of (fighter1 g))))
            (\<lambda>first_legs.
          bind_err
            (guarded (away_moneyline g) (truthy_str (fighter2 g))
               (moneyline_leg cfg e g (Some ''fighter_moneyline'') (fighter2 g)
                  (str_of (fighter2 g))))
            (\<lambda>second_legs. Inr (first_legs @ second_legs))) = Inr ls \<and>
          (\<forall>l \<in> set ls. odds l \<noteq> 0)"
      by (rule two_blocks) (rule guarded_ok, erule moneyline_leg_ok)+
    with True show ?thesis by (simp only: if_True)
  next
    case False
    then show ?thesis by (simp only: if_False) simp
  qed
qed (rule guarded_ok, (erule moneyline_leg_ok | erule fixed_leg_ok))+

lemma analyze_game_ok:
  "\<exists>ls. analyze_game cfg e g props = Inr ls \<and> (\<forall>l \<in> set ls. odds l \<noteq> 0)"
proof -
  from analyze_props_ok [of cfg e g props]
  have "\<exists>ls. analyze_props cfg e g props = Inr ls \<and> (\<forall>l \<in> set ls. odds l \<noteq> 0)"
    by blast
  with main_market_legs_ok [of cfg e g] show ?thesis
    unfolding analyze_game_def by (rule two_blocks)
qed

text \<open>
  The combinations without a zero-odds leg are the combinations of the pool without
  its zero-odds legs, in the same order.
\<close>

lemma filter_combinations:
  "filter (\<lambda>c. \<forall>l \<in> set c. P l) (combinations xs k) = combinations (filter P xs) k"
proof (induction xs k rule: combinations.induct)
  case (1 xs)
  then show ?case by simp
next
  case (2 k)
  then show ?case by simp
next
  case (3 x xs k)
  have "filter (\<lambda>c. \<forall>l \<in> set c. P l) (map ((#) x) (combinations xs k))
        = (if P x then map ((#) x) (filter (\<lambda>c. \<forall>l \<in> set c. P l) (combinations xs k)) else [])"
    by (induction "combinations xs k") (auto simp: filter_map comp_def)
  with 3 show ?case by simp
qed

lemma metrics_loop_ok:
  "1 \<le> co \<Longrightarrow>
   \<exists>r. metrics_loop (co, cc, ev, bts) ls = Inr r \<and>
       (\<forall>co' cc' ev' bts'. r = Some (co', cc', ev', bts') \<longrightarrow>
          co \<le> co' \<and> (ls \<noteq> [] \<longrightarrow> co < co'))"
proof (induction ls arbitrary: co cc ev bts)
  case Nil
  then show ?case by simp
next
  case (Cons l ls)
  show ?case
  proof (cases "odds l = 0")
    case True
    then show ?thesis by simp
  next
    case False
    from american_to_decimal_gt1 [OF False] obtain d where
      d: "american_to_decimal (odds l) = Inr d" "1 < d" by blast
    with Cons.prems have lt: "co < co * d" by simp
    then have "1 \<le> co * d" using Cons.prems by linarith
    from Cons.IH [OF this, of "cc * confidence_score l" "ev + expected_value l"
        "insert (bet_type l) bts"]
    obtain r where r: "metrics_loop (co * d, cc * confidence_score l, ev + expected_value l,
        insert (bet_type l) bts) ls = Inr r"
      "\<forall>co' cc' ev' bts'. r = Some (co', cc', ev', bts') \<longrightarrow> co * d \<le> co'" by blast
    with False d lt show ?thesis by (auto simp: bind_err_def)
  qed
qed

lemma calculate_parlay_metrics_total: "\<exists>r. calculate_parlay_metrics ls sp = Inr r"
proof (cases "length ls < 2 \<or>
    real (card (set (map (\<lambda>l. game_id (game l)) ls))) < max 2 (real (length ls) * (5 / 10))")
  case True
  then show ?thesis by (auto simp: calculate_parlay_metrics_def Let_def)
next
  case False
  then have ne: "ls \<noteq> []" by auto
  from metrics_loop_ok [of 1 1 0 "{}" ls] obtain r where
    r: "metrics_loop (1, 1, 0, {}) ls = Inr r"
    "\<forall>co' cc' ev' bts'. r = Some (co', cc', ev', bts') \<longrightarrow> 1 < co'"
    using ne by auto
  show ?thesis
  proof (cases r)
    case None
    with r(1) False show ?thesis
      by (auto simp: calculate_parlay_metrics_def Let_def bind_err_def)
  next
    case (Some t)
    obtain co' cc' ev' bts' where t: "t = (co', cc', ev', bts')" by (cases t) auto
    with r(2) Some have "1 < co'" by simp
    then have "\<exists>a. combined_american_of (co' - 1) = Inr a"
      by (simp add: combined_american_of_def py_truediv_def)
    then obtain a where "combined_american_of (co' - 1) = Inr a" by blast
    with r(1) Some t False show ?thesis
      by (auto simp: calculate_parlay_metrics_def Let_def bind_err_def)
  qed
qed

lemma map_err_metrics:
  "map_err (\<lambda>c. calculate_parlay_metrics c sp) cs
   = Inr (map (\<lambda>c. projr (calculate_parlay_metrics c sp)) cs)"
proof (induction cs)
  case Nil
  then show ?case by simp
next
  case (Cons c cs)
  from calculate_parlay_metrics_total [of c sp] obtain r where
    "calculate_parlay_metrics c sp = Inr r" by blast
  with Cons show ?case by (simp add: bind_err_def)
qed

lemma keep_some_filter:
  "(\<And>x. x \<in> set xs \<Longrightarrow> \<not> Q x \<Longrightarrow> f x = None) \<Longrightarrow>
   keep_some (map f xs) = keep_some (map f (filter Q xs))"
  by (induction xs) (auto simp: keep_some_def)

lemma metrics_enumeration_skips_zero_odds:
  "map_sum id keep_some
     (bind_err (py_combinations pool k) (map_err (\<lambda>c. calculate_parlay_metrics c sp)))
   = map_sum id keep_some
     (bind_err (py_combinations (filter (\<lambda>l. odds l \<noteq> 0) pool) k)
        (map_err (\<lambda>c. calculate_parlay_metrics c sp)))"
proof -
  have "projr (calculate_parlay_metrics c sp) = None" if "\<not> (\<forall>l \<in> set c. odds l \<noteq> 0)" for c
  proof -
    from that obtain z where "z \<in> set c" "odds z = 0" by auto
    from calculate_parlay_metrics_zero_odds [OF this] show ?thesis by simp
  qed
  then have "keep_some (map (\<lambda>c. projr (calculate_parlay_metrics c sp)) (combinations pool n))
        = keep_some (map (\<lambda>c. projr (calculate_parlay_metrics c sp))
            (filter (\<lambda>c. \<forall>l \<in> set c. odds l \<noteq> 0) (combinations pool n)))" for n
    by (intro keep_some_filter) blast
  then show ?thesis
    by (simp add: py_combinations_def bind_err_def map_err_metrics filter_combinations)
qed

text \<open>
  C4, as the specification states it, fails on the code: \<open>round_robin_generator\<close>
  does not remove a zero-odds leg from the pool it is given. On a pool of one
  zero-odds leg and nine valid legs it runs \<open>american_to_decimal\<close> on the odds of 0
  and raises \<open>ZeroDivisionError\<close>, where the nine valid legs alone give the 84 groups
  of three.
\<close>

theorem round_robin_zero_odds_counterexample:
  "round_robin_generator (leg_zero # nine_legs) 3 = Inl ZeroDivisionError \<and>
   map_sum id length (round_robin_generator nine_legs 3) = Inr 84"
proof -
  have "round_robin_generator (leg_zero # nine_legs) 3 = Inl ZeroDivisionError"
    by (rule round_robin_zero_odds [of leg_zero])
       (simp_all add: leg_zero_def nine_legs_def)
  moreover have "\<forall>l \<in> set nine_legs. odds l \<noteq> 0"
    by (simp add: nine_legs_def leg_home1_def leg_away1_def leg_spread1_def
        leg_home2_def leg_spread2_def leg_home3_def leg_total3_def leg_home4_def
        leg_home5_def)
  then obtain rs where "round_robin_generator nine_legs 3 = Inr rs"
    "length rs = (length nine_legs choose nat 3)"
    using round_robin_nonzero_odds [of nine_legs 3] by auto
  moreover have "(9::nat) choose 3 = 84"
    by (simp add: binomial_fact_lemma numeral_3_eq_3 binomial_Suc_Suc numeral_eq_Suc)
  ultimately show ?thesis by (simp add: nine_legs_def numeral_3_eq_3)
qed

text \<open>
  C4, amended. A zero-odds leg is excluded where the legs are built, not where they
  are enumerated. \<open>analyze_game\<close> creates a leg only under the truthiness guard on its
  odds column, which an absent value and a value of 0 both fail: it never raises and
  every leg it returns has nonzero odds. On a pool without a zero-odds leg
  \<open>round_robin_generator\<close>, with a group size of at least 1, returns every one of the
  \<open>length pool choose k\<close> groups and does not raise. It does not filter the pool
  itself: on a pool that holds a zero-odds leg, with a group size from 1 to the size
  of the pool, it raises \<open>ZeroDivisionError\<close>. \<open>_calculate_parlay_metrics\<close> does test
  the odds and returns \<open>None\<close> for a combination with a zero-odds leg, so the loop
  that collects its results over the combinations of a pool gives the same result as
  over the pool without its zero-odds legs.
\<close>

theorem zero_odds_excluded_at_construction:
  "(\<exists>ls. analyze_game cfg e g props = Inr ls \<and> (\<forall>l \<in> set ls. odds l \<noteq> 0)) \<and>
   ((\<forall>l \<in> set pool. odds l \<noteq> 0) \<and> 1 \<le> k \<longrightarrow>
      (\<exists>rs. round_robin_generator pool k = Inr rs \<and>
            length rs = (length pool choose nat k))) \<and>
   (z \<in> set zpool \<and> odds z = 0 \<and> 1 \<le> k \<and> k \<le> int (length zpool) \<longrightarrow>
      round_robin_generator zpool k = Inl ZeroDivisionError \<and>
      (\<forall>c. z \<in> set c \<longrightarrow> calculate_parlay_metrics c sp = Inr None)) \<and>
   map_sum id keep_some
     (bind_err (py_combinations zpool n) (map_err (\<lambda>c. calculate_parlay_metrics c sp)))
   = map_sum id keep_some
     (bind_err (py_combinations (filter (\<lambda>l. odds l \<noteq> 0) zpool) n)
        (map_err (\<lambda>c. calculate_parlay_metrics c sp)))"
proof -
  have "\<exists>ls. analyze_game cfg e g props = Inr ls \<and> (\<forall>l \<in> set ls. odds l \<noteq> 0)"
    by (rule analyze_game_ok)
  moreover have "\<exists>rs. round_robin_generator pool k = Inr rs \<and>
      length rs = (length pool choose nat k)"
    if "(\<forall>l \<in> set pool. odds l \<noteq> 0) \<and> 1 \<le> k"
    using that round_robin_nonzero_odds [of pool k] by blast
  moreover have "round_robin_generator zpool k = Inl ZeroDivisionError \<and>
      (\<forall>c. z \<in> set c \<longrightarrow> calculate_parlay_metrics c sp = Inr None)"
    if "z \<in> set zpool \<and> odds z = 0 \<and> 1 \<le> k \<and> k \<le> int (length zpool)"
    using that round_robin_zero_odds [of z zpool k]
      calculate_parlay_metrics_zero_odds [of z _ sp] by blast
  moreover note metrics_enumeration_skips_zero_odds [of zpool n sp]
  ultimately show ?thesis by blast
qed

lemma nine_legs_nonzero: "filter (\<lambda>l. odds l \<noteq> 0) (leg_zero # nine_legs) = nine_legs"
  by (simp add: nine_legs_def leg_zero_def leg_home1_def leg_away1_def leg_spread1_def
      leg_home2_def leg_spread2_def leg_home3_def leg_total3_def leg_home4_def
      leg_home5_def)

theorem zero_odds_excluded_at_construction_witness:
  "analyze_game default_config fight_env fight [] = Inr [leg_fight_home, leg_fight_jones] \<and>
   odds leg_fight_home \<noteq> 0 \<and> odds leg_fight_jones \<noteq> 0 \<and>
   odds leg_home1 \<noteq> 0 \<and> odds leg_home2 \<noteq> 0 \<and>
   (\<exists>rs. round_robin_generator [leg_home1, leg_home2] 2 = Inr rs \<and> length rs = 1) \<and>
   leg_zero \<in> set (leg_zero # nine_legs) \<and> odds leg_zero = 0 \<and>
   round_robin_generator (leg_zero # nine_legs) 2 = Inl ZeroDivisionError \<and>
   calculate_parlay_metrics [leg_zero, leg_home1] ''NBA'' = Inr None \<and>
   map_sum id keep_some
     (bind_err (py_combinations (leg_zero # nine_legs) 3)
        (map_err (\<lambda>c. calculate_parlay_metrics c ''NBA'')))
   = map_sum id keep_some
     (bind_err (py_combinations nine_legs 3)
        (map_err (\<lambda>c. calculate_parlay_metrics c ''NBA'')))"
proof -
  note t = zero_odds_excluded_at_construction [where cfg = default_config
      and e = fight_env and g = fight and props = "[]"
      and pool = "[leg_home1, leg_home2]" and k = 2
      and z = leg_zero and zpool = "leg_zero # nine_legs" and sp = "''NBA''" and n = 3]
  have a: "(\<forall>l \<in> set [leg_home1, leg_home2]. odds l \<noteq> 0) \<and> (1::int) \<le> 2"
    by (simp add: leg_home1_def leg_home2_def)
  have b: "leg_zero \<in> set (leg_zero # nine_legs) \<and> odds leg_zero = 0 \<and> (1::int) \<le> 2 \<and>
      (2::int) \<le> int (length (leg_zero # nine_legs))"
    by (simp add: leg_zero_def nine_legs_def)
  from t have "\<exists>ls. analyze_game default_config fight_env fight [] = Inr ls \<and>
      (\<forall>l \<in> set ls. odds l \<noteq> 0)" by (rule conjunct1)
  then have t1: "analyze_game default_config fight_env fight []
        = Inr [leg_fight_home, leg_fight_jones] \<and>
      odds leg_fight_home \<noteq> 0 \<and> odds leg_fight_jones \<noteq> 0"
    by (simp add: analyze_fight)
  from a have a': "odds leg_home1 \<noteq> 0 \<and> odds leg_home2 \<noteq> 0" by simp
  from t a have "\<exists>rs. round_robin_generator [leg_home1, leg_home2] 2 = Inr rs \<and>
      length rs = (length [leg_home1, leg_home2] choose nat 2)" by blast
  moreover have "length [leg_home1, leg_home2] choose nat 2 = 1"
    by (simp add: numeral_2_eq_2)
  ultimately have t2: "\<exists>rs. round_robin_generator [leg_home1, leg_home2] 2 = Inr rs \<and>
      length rs = 1" by simp
  from t b have t3: "round_robin_generator (leg_zero # nine_legs) 2 = Inl ZeroDivisionError"
    and t4: "\<forall>c. leg_zero \<in> set c \<longrightarrow> calculate_parlay_metrics c ''NBA'' = Inr None"
    by blast+
  from t4 have t5: "calculate_parlay_metrics [leg_zero, leg_home1] ''NBA'' = Inr None"
    by simp
  from t have "map_sum id keep_some
     (bind_err (py_combinations (leg_zero # nine_legs) 3)
        (map_err (\<lambda>c. calculate_parlay_metrics c ''NBA'')))
   = map_sum id keep_some
     (bind_err (py_combinations (filter (\<lambda>l. odds l \<noteq> 0) (leg_zero # nine_legs)) 3)
        (map_err (\<lambda>c. calculate_parlay_metrics c ''NBA'')))" by blast
  then have t6: "map_sum id keep_some
     (bind_err (py_combinations (leg_zero # nine_legs) 3)
        (map_err (\<lambda>c. calculate_parlay_metrics c ''NBA'')))
   = map_sum id keep_some
     (bind_err (py_combinations nine_legs 3)
        (map_err (\<lambda>c. calculate_parlay_metrics c ''NBA'')))"
    by (simp only: nine_legs_nonzero)
  from a' b t1 t2 t3 t5 t6 show ?thesis by blast
qed


subsection \<open>Number of legs of a returned candidate\<close>

lemma map_err_elem:
  "map_err f xs = Inr ys \<Longrightarrow> y \<in> set ys \<Longrightarrow> \<exists>x \<in> set xs. f x = Inr y"
proof (induction xs arbitrary: ys)
  case Nil
  then show ?case by simp
next
  case (Cons x xs)
  then show ?case by (auto simp: bind_err_def split: sum.splits)
qed

lemma set_py_range: "set (py_range a b) = {k. a \<le> k \<and> k < b}"
  by (auto simp: py_range_def)

lemma enumerate_candidates_elem:
  assumes "enumerate_candidates body pool lo hi = Inr cs" "c \<in> set cs"
  shows "\<exists>k combo. lo \<le> k \<and> k < hi \<and> 0 \<le> k \<and> combo \<in> set (combinations pool (nat k)) \<and>
                   body combo = Inr c"
proof -
  from assms(1) obtain groups where
    g: "map_err (\<lambda>k. bind_err (py_combinations pool k) (map_err body)) (py_range lo hi)
          = Inr groups" and cs: "cs = concat groups"
    by (auto simp: enumerate_candidates_def bind_err_def split: sum.splits)
  from assms(2) cs obtain grp where grp: "grp \<in> set groups" "c \<in> set grp" by auto
  from map_err_elem [OF g grp(1)] obtain k where
    k: "k \<in> set (py_range lo hi)" "bind_err (py_combinations pool k) (map_err body) = Inr grp"
    by blast
  from k(2) have k0: "0 \<le> k" and m: "map_err body (combinations pool (nat k)) = Inr grp"
    by (auto simp: py_combinations_def bind_err_def split: if_splits)
  from map_err_elem [OF m grp(2)] obtain combo where
    "combo \<in> set (combinations pool (nat k))" "body combo = Inr c" by blast
  with k(1) k0 show ?thesis by (auto simp: set_py_range)
qed

lemma sgp_candidate_fields:
  "sgp_candidate cfg w g combo = Inr c \<Longrightarrow>
   legs c = combo \<and> num_legs c = length combo \<and> is_sgp c"
  by (auto simp: sgp_candidate_def bind_err_def split: sum.splits prod.splits)

lemma cross_candidate_fields:
  "cross_candidate cfg w combo = Inr c \<Longrightarrow>
   legs c = combo \<and> num_legs c = length combo \<and> \<not> is_sgp c"
  by (auto simp: cross_candidate_def bind_err_def Let_def split: sum.splits prod.splits)

lemma set_py_take: "set (py_take n xs) \<subseteq> set xs"
  by (auto simp: py_take_def dest: in_set_takeD)

lemma sgp_within_bounds:
  assumes "generate_same_game_parlays cfg w an g n = Inr ps" "p \<in> set ps"
  shows "within_bounds cfg p \<and> is_sgp p"
proof -
  let ?sl = "filter (\<lambda>l. bet_type l \<in> {Some ''prop'', Some ''moneyline'', Some ''spread'', Some ''total''}) (an g)"
  show ?thesis
  proof (cases "int (length ?sl) < MIN_PARLAY_LEGS cfg")
    case True
    with assms show ?thesis by (simp add: generate_same_game_parlays_def Let_def)
  next
    case False
    with assms(1) obtain cs where
      e: "enumerate_candidates (sgp_candidate cfg w g) ?sl (max (MIN_PARLAY_LEGS cfg) 4)
            (min 9 (int (length ?sl) + 1)) = Inr cs"
      and ps: "ps = py_take n (sort_key (\<lambda>x. - score x) cs)"
      by (auto simp: generate_same_game_parlays_def Let_def bind_err_def split: sum.splits)
    from assms(2) ps set_py_take have "p \<in> set cs" by fastforce
    from enumerate_candidates_elem [OF e this] obtain k combo where
      k: "max (MIN_PARLAY_LEGS cfg) 4 \<le> k" "k < min 9 (int (length ?sl) + 1)" "0 \<le> k"
        "combo \<in> set (combinations ?sl (nat k))" "sgp_candidate cfg w g combo = Inr p"
      by blast
    from length_combinations [OF k(4)] sgp_candidate_fields [OF k(5)] k(1,2,3)
    show ?thesis by (auto simp: within_bounds_def)
  qed
qed

lemma select_diverse_subset:
  "set (select_diverse K sel used ps) \<subseteq> set sel \<union> set ps"
proof (induction ps arbitrary: sel used)
  case Nil
  then show ?case by simp
next
  case (Cons p ps)
  have a: "set (select_diverse K (sel @ [p]) (used \<union> parlay_games p) ps)
             \<subseteq> set (sel @ [p]) \<union> set ps" by (rule Cons.IH)
  have b: "set (select_diverse K sel used ps) \<subseteq> set sel \<union> set ps" by (rule Cons.IH)
  from a b show ?case by (auto simp: Let_def)
qed

lemma optimize_elem:
  assumes "p \<in> set (optimize_parlay_selection cands K)"
  shows "\<exists>c \<in> set cands. p = snd (score_parlay c)"
proof -
  from assms have "p \<in> set (sorted_by_adjusted cands)"
    using select_diverse_subset [of K "[]" "{}" "sorted_by_adjusted cands"]
    by (auto simp: optimize_parlay_selection_def split: if_splits)
  then show ?thesis by (auto simp: sorted_by_adjusted_def)
qed

lemma score_parlay_bounds: "within_bounds cfg (snd (score_parlay c)) = within_bounds cfg c"
  by (simp add: score_parlay_def Let_def within_bounds_def)

lemma score_parlay_sgp: "is_sgp (snd (score_parlay c)) = is_sgp c"
  by (simp add: score_parlay_def Let_def)

lemma add_kelly_bounds: "add_kelly p = Inr p' \<Longrightarrow> within_bounds cfg p' = within_bounds cfg p"
  by (auto simp: add_kelly_def Let_def bind_err_def within_bounds_def split: sum.splits)

lemma cross_within_bounds:
  assumes "enumerate_candidates (cross_candidate cfg w) pool (MIN_PARLAY_LEGS cfg)
             (min (MAX_PARLAY_LEGS cfg + 1) (int (length pool) + 1)) = Inr cs" "c \<in> set cs"
  shows "within_bounds cfg c"
proof -
  from enumerate_candidates_elem [OF assms] obtain k combo where
    k: "MIN_PARLAY_LEGS cfg \<le> k" "k < min (MAX_PARLAY_LEGS cfg + 1) (int (length pool) + 1)"
      "0 \<le> k" "combo \<in> set (combinations pool (nat k))" "cross_candidate cfg w combo = Inr c"
    by blast
  from length_combinations [OF k(4)] cross_candidate_fields [OF k(5)] k(1,2,3)
  show ?thesis by (auto simp: within_bounds_def)
qed

lemma sgp_groups_within_bounds:
  assumes "map_err (\<lambda>g. generate_same_game_parlays cfg w an g 5) games = Inr groups"
    "p \<in> set (concat groups)"
  shows "within_bounds cfg p"
proof -
  from assms(2) obtain grp where grp: "grp \<in> set groups" "p \<in> set grp" by auto
  from map_err_elem [OF assms(1) grp(1)] obtain g where
    "generate_same_game_parlays cfg w an g 5 = Inr grp" by blast
  from sgp_within_bounds [OF this grp(2)] show ?thesis by simp
qed

lemma generate_parlays_within_bounds:
  assumes "generate_parlays cfg w an games K sgp = Inr ps" "p \<in> set ps"
  shows "within_bounds cfg p"
proof -
  let ?S = "if sgp
        then bind_err (map_err (\<lambda>g. generate_same_game_parlays cfg w an g 5) games)
               (\<lambda>groups. Inr (concat groups))
        else Inr []"
  from assms(1) obtain ap where ap: "?S = Inr ap"
    by (cases ?S) (auto simp: generate_parlays_def bind_err_def)
  have apb: "within_bounds cfg q" if "q \<in> set ap" for q
  proof (cases sgp)
    case True
    with ap obtain groups where
      "map_err (\<lambda>g. generate_same_game_parlays cfg w an g 5) games = Inr groups"
      "ap = concat groups"
      by (auto simp: bind_err_def split: sum.splits)
    with that sgp_groups_within_bounds show ?thesis by blast
  next
    case False
    with ap that show ?thesis by simp
  qed
  let ?all = "concat (map an games)"
  show ?thesis
  proof (cases "int (length ?all) < MIN_PARLAY_LEGS cfg")
    case True
    with assms(1) ap have "ps = (if ap \<noteq> [] then py_take K ap else [])"
      by (simp add: generate_parlays_def bind_err_def Let_def)
    with assms(2) set_py_take [of K ap] have "p \<in> set ap" by (auto split: if_splits)
    then show ?thesis by (rule apb)
  next
    case False
    let ?E = "enumerate_candidates (cross_candidate cfg w) ?all (MIN_PARLAY_LEGS cfg)
            (min (MAX_PARLAY_LEGS cfg + 1) (int (length ?all) + 1))"
    from assms(1) ap False obtain cs where cs: "?E = Inr cs"
      by (cases ?E) (auto simp: generate_parlays_def bind_err_def Let_def)
    let ?pc = "sort_key (\<lambda>x. (\<not> has_props x, - score x)) cs"
    let ?sel = "optimize_parlay_selection ?pc K"
    from assms(1) ap False cs obtain opt where opt: "map_err add_kelly ?sel = Inr opt"
      by (cases "map_err add_kelly ?sel") (auto simp: generate_parlays_def bind_err_def Let_def)
    from assms(1) ap False cs opt have ps:
      "ps = py_take K (sort_key (\<lambda>x. (\<not> is_sgp x, \<not> has_props x, - score x))
                         (ap @ (if opt \<noteq> [] then opt else py_take K ?pc)))"
      by (simp add: generate_parlays_def bind_err_def Let_def)
    have csb: "within_bounds cfg c" if "c \<in> set cs" for c
      using cross_within_bounds [OF cs that] .
    have optb: "within_bounds cfg q" if "q \<in> set opt" for q
    proof -
      from map_err_elem [OF opt that] obtain s where
        s: "s \<in> set ?sel" "add_kelly s = Inr q"
        by blast
      from optimize_elem [OF s(1)] obtain c where "c \<in> set cs" "s = snd (score_parlay c)"
        by auto
      with csb [of c] add_kelly_bounds [OF s(2)] score_parlay_bounds show ?thesis by simp
    qed
    from assms(2) ps set_py_take
    have "p \<in> set (ap @ (if opt \<noteq> [] then opt else py_take K ?pc))" by fastforce
    then consider "p \<in> set ap" | "p \<in> set opt" | "p \<in> set (py_take K ?pc)"
      by (auto split: if_splits)
    then show ?thesis
    proof cases
      case 1 then show ?thesis by (rule apb)
    next
      case 2 then show ?thesis by (rule optb)
    next
      case 3
      with set_py_take [of K ?pc] have "p \<in> set cs" by auto
      then show ?thesis by (rule csb)
    qed
  qed
qed


lemma generate_two_legs:
  "generate_parlays default_config default_weights two_legs [game1, game2] 10 True
     = Inr [two_leg_parlay]"
  by code_simp

text \<open>
  C6, as the specification states it, fails on the code for same-game parlays. With
  \<open>min_legs = 2\<close> and \<open>max_legs = 4\<close> and five legs found in one game,
  \<open>generate_same_game_parlays\<close> returns six candidates, one of them with five legs: its
  range of sizes is \<open>range(max(MIN_PARLAY_LEGS, 4), min(9, len + 1))\<close>, in which
  \<open>MAX_PARLAY_LEGS\<close> does not occur.
\<close>

theorem same_game_parlay_size_counterexample:
  "MIN_PARLAY_LEGS config_2_4 = 2 \<and> MAX_PARLAY_LEGS config_2_4 = 4 \<and>
   map_sum id (map num_legs)
     (generate_same_game_parlays config_2_4 default_weights five_legs_of_game1 game1 10)
   = Inr [4, 4, 4, 5, 4, 4]"
  by code_simp

lemma metrics_fields:
  "calculate_parlay_metrics ls sp = Inr (Some p) \<Longrightarrow>
   picks p = ls \<and> d_num_legs p = length ls \<and> 2 \<le> length ls"
  by (auto simp: calculate_parlay_metrics_def bind_err_def Let_def
      split: if_splits sum.splits option.splits prod.splits)

lemma varied_inner_elem:
  "varied_inner sp acc combos = Inr ps \<Longrightarrow> p \<in> set ps \<Longrightarrow>
   p \<in> set acc \<or> (\<exists>c \<in> set combos. calculate_parlay_metrics c sp = Inr (Some p))"
proof (induction combos arbitrary: acc)
  case Nil
  then show ?case by simp
next
  case (Cons c combos)
  from Cons.prems(1) obtain r where r: "calculate_parlay_metrics c sp = Inr r"
    by (cases "calculate_parlay_metrics c sp") (auto simp: bind_err_def)
  show ?case
  proof (cases r)
    case None
    with r Cons.prems have "varied_inner sp acc combos = Inr ps" by (simp add: bind_err_def)
    from Cons.IH [OF this Cons.prems(2)] show ?thesis by auto
  next
    case (Some q)
    show ?thesis
    proof (cases "length (acc @ [q]) \<ge> 5")
      case True
      with r Some Cons.prems have "ps = acc @ [q]" by (simp add: bind_err_def Let_def)
      with Cons.prems(2) r Some show ?thesis by auto
    next
      case False
      with r Some Cons.prems have "varied_inner sp (acc @ [q]) combos = Inr ps"
        by (simp add: bind_err_def Let_def)
      from Cons.IH [OF this Cons.prems(2)] r Some show ?thesis by auto
    qed
  qed
qed

lemma varied_outer_elem:
  "varied_outer al bt n sp acc tcs = Inr ps \<Longrightarrow> p \<in> set ps \<Longrightarrow>
   p \<in> set acc \<or> (\<exists>c. length c = n \<and> calculate_parlay_metrics c sp = Inr (Some p))"
proof (induction tcs arbitrary: acc)
  case Nil
  then show ?case by simp
next
  case (Cons tc tcs)
  let ?sel = "fill_legs al n (select_by_type bt tc n)"
  show ?case
  proof (cases "length ?sel \<ge> n")
    case False
    with Cons.prems have "varied_outer al bt n sp acc tcs = Inr ps" by (simp add: Let_def)
    from Cons.IH [OF this Cons.prems(2)] show ?thesis .
  next
    case True
    with Cons.prems(1) obtain acc' where
      i: "varied_inner sp acc (combinations (take n ?sel) n) = Inr acc'"
      and o: "varied_outer al bt n sp acc' tcs = Inr ps"
      by (cases "varied_inner sp acc (combinations (take n ?sel) n)")
         (auto simp: Let_def bind_err_def)
    from Cons.IH [OF o Cons.prems(2)] show ?thesis
    proof
      assume "p \<in> set acc'"
      from varied_inner_elem [OF i this] show ?thesis
        by (auto dest: length_combinations)
    next
      assume "\<exists>c. length c = n \<and> calculate_parlay_metrics c sp = Inr (Some p)"
      then show ?thesis by blast
    qed
  qed
qed

lemma dedup_loop_subset:
  "dedup_loop unique seen ps = Inr us \<Longrightarrow> set us \<subseteq> set unique \<union> set ps"
proof (induction ps arbitrary: unique seen)
  case Nil
  then show ?case by auto
next
  case (Cons p ps)
  from Cons.prems obtain sg where sg: "signature p = Inr sg"
    by (cases "signature p") (auto simp: bind_err_def)
  show ?case
  proof (cases "sg \<in> seen")
    case True
    with Cons.prems sg have "dedup_loop unique seen ps = Inr us" by (simp add: bind_err_def)
    from Cons.IH [OF this] show ?thesis by auto
  next
    case False
    with Cons.prems sg have "dedup_loop (unique @ [p]) (insert sg seen) ps = Inr us"
      by (simp add: bind_err_def)
    from Cons.IH [OF this] show ?thesis by auto
  qed
qed

lemma deduplicate_subset: "deduplicate_parlays ps = Inr us \<Longrightarrow> set us \<subseteq> set ps"
  using dedup_loop_subset [of "[]" "{}" ps us] by (simp add: deduplicate_parlays_def)

lemma set_keep_some: "set (keep_some rs) = {x. Some x \<in> set rs}"
  by (induction rs) (auto simp: keep_some_def split: option.splits)

lemma diverse_bounds:
  assumes "generate_diverse_sport_parlays cfg an games sp K ev = Inr ps" "p \<in> set ps"
  shows "d_num_legs p = length (picks p) \<and> 2 \<le> d_num_legs p \<and>
         (if ev then d_num_legs p \<in> set leg_count_targets
          else MIN_PARLAY_LEGS cfg \<le> int (d_num_legs p) \<and>
               int (d_num_legs p) \<le> MAX_PARLAY_LEGS cfg)"
proof -
  let ?all = "concat (map an games)"
  from assms have ne: "games \<noteq> []" "\<not> length ?all < 2"
    by (auto simp: generate_diverse_sport_parlays_def Let_def split: if_splits)
  from assms(1) ne obtain cats where cats: "map_err (\<lambda>l. category (bet_type l)) ?all = Inr cats"
    by (cases "map_err (\<lambda>l. category (bet_type l)) ?all")
       (auto simp: generate_diverse_sport_parlays_def Let_def bind_err_def)
  let ?V = "map_err (\<lambda>target_legs.
                             if target_legs > length ?all then Inr []
                             else generate_varied_parlays ?all
                                    (legs_by_type ?all cats) target_legs sp)
                    leg_count_targets"
  let ?N = "map_err (\<lambda>k. bind_err (py_combinations (take 50 ?all) k)
                                   (map_err (\<lambda>combo. calculate_parlay_metrics combo sp)))
                    (py_range (MIN_PARLAY_LEGS cfg)
                       (min (MAX_PARLAY_LEGS cfg + 1) (int (length ?all) + 1)))"
  let ?C = "if ev then bind_err ?V (\<lambda>groups. Inr (concat groups))
            else bind_err ?N (\<lambda>groups. Inr (keep_some (concat groups)))"
  from assms(1) ne cats obtain pc where pc: "?C = Inr pc"
    by (cases ?C) (auto simp: generate_diverse_sport_parlays_def Let_def bind_err_def)
  let ?D = "deduplicate_parlays (sort_key (\<lambda>x. - quality_score x) pc)"
  from assms(1) ne cats pc obtain us where us: "?D = Inr us" and ps: "ps = py_take K us"
    by (cases ?D) (auto simp: generate_diverse_sport_parlays_def Let_def bind_err_def)
  from assms(2) ps set_py_take [of K us] deduplicate_subset [OF us] have ppc: "p \<in> set pc"
    by auto
  show ?thesis
  proof (cases ev)
    case True
    with pc obtain groups where g: "?V = Inr groups" "pc = concat groups"
      by (cases ?V) (auto simp: bind_err_def)
    from ppc g(2) obtain grp where grp: "grp \<in> set groups" "p \<in> set grp" by auto
    from map_err_elem [OF g(1) grp(1)] obtain t where
      t: "t \<in> set leg_count_targets"
        "(if t > length ?all then Inr []
          else generate_varied_parlays ?all (legs_by_type ?all cats) t sp) = Inr grp"
      by blast
    from t(2) grp(2) have "generate_varied_parlays ?all (legs_by_type ?all cats) t sp = Inr grp"
      by (auto split: if_splits)
    then have "varied_outer ?all (legs_by_type ?all cats) t sp [] type_combinations = Inr grp"
      by (simp add: generate_varied_parlays_def)
    from varied_outer_elem [OF this grp(2)] obtain c where
      "length c = t" "calculate_parlay_metrics c sp = Inr (Some p)" by auto
    with metrics_fields [of c sp p] t(1) True show ?thesis by auto
  next
    case False
    with pc obtain groups where g: "?N = Inr groups" "pc = keep_some (concat groups)"
      by (cases ?N) (auto simp: bind_err_def)
    from ppc g(2) obtain grp where grp: "grp \<in> set groups" "Some p \<in> set grp"
      by (auto simp: set_keep_some)
    from map_err_elem [OF g(1) grp(1)] obtain k where
      k: "k \<in> set (py_range (MIN_PARLAY_LEGS cfg)
                       (min (MAX_PARLAY_LEGS cfg + 1) (int (length ?all) + 1)))"
        "bind_err (py_combinations (take 50 ?all) k)
           (map_err (\<lambda>combo. calculate_parlay_metrics combo sp)) = Inr grp"
      by blast
    from k(2) have k0: "0 \<le> k"
      and m: "map_err (\<lambda>combo. calculate_parlay_metrics combo sp)
                (combinations (take 50 ?all) (nat k)) = Inr grp"
      by (auto simp: py_combinations_def bind_err_def split: if_splits)
    from map_err_elem [OF m grp(2)] obtain c where
      c: "c \<in> set (combinations (take 50 ?all) (nat k))"
        "calculate_parlay_metrics c sp = Inr (Some p)" by blast
    from length_combinations [OF c(1)] metrics_fields [OF c(2)] k(1) k0 False
    show ?thesis by (auto simp: set_py_range)
  qed
qed


lemma set_leg_count_targets: "set leg_count_targets = {2, 3, 4, 5, 6, 7, 8, 10, 12, 15}"
  by (simp add: leg_count_targets_def)

lemma diverse_two_legs:
  "generate_diverse_sport_parlays default_config two_legs [game1, game2] ''NBA'' 3 True
     = Inr [two_leg_diverse]"
  by code_simp

text \<open>
  C6, amended. Every candidate \<open>generate_parlays\<close> returns holds as many legs as its
  \<open>num_legs\<close> says; a cross-game candidate has between \<open>MIN_PARLAY_LEGS\<close> and
  \<open>MAX_PARLAY_LEGS\<close> legs, a same-game parlay between \<open>max(MIN_PARLAY_LEGS, 4)\<close> and 8,
  whatever \<open>MAX_PARLAY_LEGS\<close> is. Every candidate \<open>generate_diverse_sport_parlays\<close>
  returns has at least two legs; with \<open>ensure_variety\<close> their number is one of the
  fixed targets 2, 3, 4, 5, 6, 7, 8, 10, 12, 15, whatever the configuration is, and
  without it between \<open>MIN_PARLAY_LEGS\<close> and \<open>MAX_PARLAY_LEGS\<close>.
\<close>

theorem returned_candidates_leg_bounds:
  "(generate_parlays cfg w an games K sgp = Inr ps \<and> p \<in> set ps \<longrightarrow>
      num_legs p = length (legs p) \<and>
      (if is_sgp p
       then max (MIN_PARLAY_LEGS cfg) 4 \<le> int (num_legs p) \<and> num_legs p \<le> 8
       else MIN_PARLAY_LEGS cfg \<le> int (num_legs p) \<and>
            int (num_legs p) \<le> MAX_PARLAY_LEGS cfg)) \<and>
   (generate_diverse_sport_parlays cfg an games sp K' ev = Inr ds \<and> d \<in> set ds \<longrightarrow>
      d_num_legs d = length (picks d) \<and> 2 \<le> d_num_legs d \<and>
      (if ev then d_num_legs d \<in> {2, 3, 4, 5, 6, 7, 8, 10, 12, 15}
       else MIN_PARLAY_LEGS cfg \<le> int (d_num_legs d) \<and>
            int (d_num_legs d) \<le> MAX_PARLAY_LEGS cfg))"
proof -
  have "num_legs p = length (legs p) \<and>
      (if is_sgp p
       then max (MIN_PARLAY_LEGS cfg) 4 \<le> int (num_legs p) \<and> num_legs p \<le> 8
       else MIN_PARLAY_LEGS cfg \<le> int (num_legs p) \<and>
            int (num_legs p) \<le> MAX_PARLAY_LEGS cfg)"
    if "generate_parlays cfg w an games K sgp = Inr ps" "p \<in> set ps"
    using generate_parlays_within_bounds [OF that] unfolding within_bounds_def .
  moreover have "d_num_legs d = length (picks d) \<and> 2 \<le> d_num_legs d \<and>
      (if ev then d_num_legs d \<in> {2, 3, 4, 5, 6, 7, 8, 10, 12, 15}
       else MIN_PARLAY_LEGS cfg \<le> int (d_num_legs d) \<and>
            int (d_num_legs d) \<le> MAX_PARLAY_LEGS cfg)"
    if "generate_diverse_sport_parlays cfg an games sp K' ev = Inr ds" "d \<in> set ds"
    using diverse_bounds [OF that] unfolding set_leg_count_targets .
  ultimately show ?thesis by blast
qed

theorem returned_candidates_leg_bounds_witness:
  "generate_parlays default_config default_weights two_legs [game1, game2] 10 True
     = Inr [two_leg_parlay] \<and>
   two_leg_parlay \<in> set [two_leg_parlay] \<and>
   num_legs two_leg_parlay = length (legs two_leg_parlay) \<and>
   \<not> is_sgp two_leg_parlay \<and>
   MIN_PARLAY_LEGS default_config \<le> int (num_legs two_leg_parlay) \<and>
   int (num_legs two_leg_parlay) \<le> MAX_PARLAY_LEGS default_config \<and>
   generate_diverse_sport_parlays default_config two_legs [game1, game2] ''NBA'' 3 True
     = Inr [two_leg_diverse] \<and>
   two_leg_diverse \<in> set [two_leg_diverse] \<and>
   d_num_legs two_leg_diverse = length (picks two_leg_diverse) \<and>
   d_num_legs two_leg_diverse = 2"
  using returned_candidates_leg_bounds [where cfg = default_config and w = default_weights
      and an = two_legs and games = "[game1, game2]" and K = 10 and sgp = True
      and ps = "[two_leg_parlay]" and p = two_leg_parlay and sp = "''NBA''" and K' = 3
      and ev = True and ds = "[two_leg_diverse]" and d = two_leg_diverse]
  by (simp add: generate_two_legs diverse_two_legs two_leg_parlay_def two_leg_diverse_def)

subsection \<open>Too few legs\<close>

lemma map_err_all_empty:
  "\<forall>x \<in> set xs. f x = Inr [] \<Longrightarrow> \<exists>yss. map_err f xs = Inr yss \<and> concat yss = []"
  by (induction xs) (auto simp: bind_err_def)

lemma length_le_concat: "x \<in> set xs \<Longrightarrow> length (f x) \<le> length (concat (map f xs))"
  by (induction xs) auto

lemma sgp_insufficient:
  assumes "int (length (concat (map an games))) < MIN_PARLAY_LEGS cfg" "g \<in> set games"
  shows "generate_same_game_parlays cfg w an g n = Inr []"
proof -
  have "length (filter (\<lambda>l. bet_type l \<in> {Some ''prop'', Some ''moneyline'', Some ''spread'', Some ''total''}) (an g))
        \<le> length (an g)" by simp
  also have "\<dots> \<le> length (concat (map an games))" using assms(2) by (rule length_le_concat)
  finally show ?thesis using assms(1)
    by (simp add: generate_same_game_parlays_def Let_def)
qed


text \<open>
  C7. When the games yield fewer legs than \<open>MIN_PARLAY_LEGS\<close>, \<open>generate_parlays\<close>
  returns the empty list and raises nothing (no same-game parlay can exist either,
  each game having at most as many legs as all games together); when they yield fewer
  than \<open>min_legs\<close>, so does \<open>optimize_for_target_odds\<close>.
\<close>

theorem insufficient_legs_empty:
  "(int (length (concat (map an games))) < MIN_PARLAY_LEGS cfg \<longrightarrow>
      generate_parlays cfg w an games K sgp = Inr []) \<and>
   (int (length (concat (map an games))) < min_legs \<longrightarrow>
      optimize_for_target_odds an games target tol min_legs max_legs = Inr [])"
proof (intro conjI impI)
  assume a: "int (length (concat (map an games))) < MIN_PARLAY_LEGS cfg"
  then have "\<forall>g \<in> set games. generate_same_game_parlays cfg w an g 5 = Inr []"
    by (auto intro: sgp_insufficient)
  from map_err_all_empty [OF this] obtain yss where
    "map_err (\<lambda>g. generate_same_game_parlays cfg w an g 5) games = Inr yss" "concat yss = []"
    by blast
  with a show "generate_parlays cfg w an games K sgp = Inr []"
    by (simp add: generate_parlays_def bind_err_def Let_def)
next
  assume "int (length (concat (map an games))) < min_legs"
  then show "optimize_for_target_odds an games target tol min_legs max_legs = Inr []"
    by (simp add: optimize_for_target_odds_def Let_def)
qed

theorem insufficient_legs_empty_witness:
  "int (length (concat (map one_leg_of_game1 [game1, game2])))
     < MIN_PARLAY_LEGS default_config \<and>
   generate_parlays default_config default_weights one_leg_of_game1 [game1, game2] 10 True
     = Inr [] \<and>
   int (length (concat (map one_leg_of_game1 [game1, game2]))) < 2 \<and>
   optimize_for_target_odds one_leg_of_game1 [game1, game2] 300 (1 / 10) 2 8 = Inr []"
  using insufficient_legs_empty [where an = one_leg_of_game1 and games = "[game1, game2]"
      and cfg = default_config and w = default_weights and K = 10 and sgp = True
      and min_legs = 2 and target = 300 and tol = "1 / 10" and max_legs = 8]
  by (simp add: one_leg_of_game1_def game1_def game2_def default_config_def)


end
